theory Spec2Isabelle
  imports Main "HOL-Library.Word"
begin

unbundle bit_operations_syntax

section \<open>Data model of tcmalloc.cc\<close>

text \<open>
  Addresses, sizes and page identifiers are the 64-bit unsigned values of the
  source (\<open>size_t\<close>, \<open>uintptr_t\<close>, \<open>PageId\<close>); their arithmetic wraps.
  The fields \<open>Span::obj_size\<close> and \<open>Span::objects_per_span\<close> are \<open>uint32_t\<close>
  (see the casts in \<open>do_malloc_pages\<close>).
\<close>

type_synonym size_t = "64 word"
type_synonym addr = "64 word"
type_synonym PageId = "64 word"

text \<open>
  \<open>struct escape { void *loc; struct escape *next; }\<close>. A chain hanging off
  \<open>escape_list[idx]\<close> is represented by the list of its nodes in chain order;
  the empty list is the null head. Each node keeps the address of its chunk
  in the escape arena, so that the model can say which chunks are handed
  back by \<open>delete_escape\<close>.
\<close>

record escape =
  chunk :: addr
  loc :: addr

text \<open>
  The part of \<open>Span\<close> that tcmalloc.cc reads and writes. \<open>escape_list\<close> is a
  nullable pointer to an array of chain heads, two heads for a span of at
  most two objects and 1024 heads otherwise. The heads are a function of the
  index the source computes; an access beyond the extent of the array is
  outside the model.
  \<open>num_pages\<close> gives \<open>bytes_in_span()\<close>; \<open>sampled_allocated_size\<close> is
  \<open>sampled_allocation()->sampled_stack.allocated_size\<close> of a sampled span and
  \<open>None\<close> for a span that is not sampled.
\<close>

record Span =
  start_address :: addr
  num_pages :: size_t
  obj_size :: "32 word"
  objects_per_span :: "32 word"
  escape_list :: "(int \<Rightarrow> escape list) option"
  sampled_allocated_size :: "size_t option"

text \<open>
  The state of \<open>Static::escape_allocator()\<close>: the chunks that have been given
  back, the last one first, and the address of the next fresh chunk.
\<close>

record arena =
  free_chunks :: "addr list"
  fresh :: addr

text \<open>
  Calls into the caches and the page allocator, the copies, the lines that
  \<open>printf\<close> writes to the standard output, and the samples reported to the
  profile (requested size, allocated size, weight), as a trace.
\<close>

datatype event =
    CacheAllocate size_t
  | CacheDeallocate addr size_t
  | PagesDelete addr
  | Memcpy addr addr size_t
  | Memset addr size_t
  | Printf string
  | ReportMalloc size_t size_t size_t

text \<open>
  The process-wide state \<open>tc_globals\<close> together with the memory the safety
  layer reads. The page map is given by its three readers:
  \<open>pagemap().get_page_info\<close>, \<open>pagemap().GetDescriptor\<close> (a \<open>Span*\<close>, here an
  index into \<open>span_heap\<close>, or null) and \<open>pagemap().sizeclass\<close>.
  \<open>PointerIsMine\<close> and \<open>GetRequestedSize\<close> are those of the guarded page
  allocator. \<open>memory\<close> gives the pointer stored at an address (the value of
  \<open>*(void**)a\<close>); \<open>bytes\<close> gives the \<open>char\<close> stored at an address.
  \<open>escape_caches\<close> holds the pending \<open>(loc, ptr)\<close> pairs.
\<close>

record tc_globals =
  get_page_info :: "PageId \<Rightarrow> size_t"
  GetDescriptor :: "PageId \<Rightarrow> nat option"
  sizeclass :: "PageId \<Rightarrow> 8 word"
  span_heap :: "nat \<Rightarrow> Span"
  PointerIsMine :: "addr \<Rightarrow> bool"
  GetRequestedSize :: "addr \<Rightarrow> size_t"
  memory :: "addr \<Rightarrow> addr"
  bytes :: "addr \<Rightarrow> 8 word"
  escape_caches :: "nat \<Rightarrow> addr \<times> addr"
  escape_pos :: nat
  escape_allocator :: arena
  logged :: "string list"
  events :: "event list"

text \<open>
  Build configuration. \<open>ENABLE_PROTECTION\<close> selects the safety layer;
  \<open>ENABLE_ERROR_REPORT\<close> and \<open>CRASH_ON_CORRUPTION\<close> select logging and aborting
  on a violation. \<open>kPageShift\<close> and \<open>CACHE_SIZE\<close> are constants of headers;
  \<open>class_to_size\<close>, \<open>class_to_pages\<close> and \<open>GetSizeClass\<close> are the size-class
  table of the build profile (\<open>sizemap()\<close>), the last for the alignment of
  plain \<open>malloc\<close>, with \<open>None\<close> where the source gets \<open>false\<close>. The counters of
  \<open>ENABLE_STATISTIC\<close> builds are not part of the model (\<open>ENABLE_STATISTIC\<close>,
  \<open>PROTECTION_DEBUG\<close> and \<open>OBJ_SIZE_DEBUG\<close> undefined).
\<close>

record build =
  ENABLE_PROTECTION :: bool
  ENABLE_ERROR_REPORT :: bool
  CRASH_ON_CORRUPTION :: bool
  kPageShift :: nat
  CACHE_SIZE :: nat
  class_to_size :: "size_t \<Rightarrow> size_t"
  class_to_pages :: "size_t \<Rightarrow> size_t"
  GetSizeClass :: "size_t \<Rightarrow> size_t option"

text \<open>
  Ways in which a call does not return: \<open>abort()\<close> under
  \<open>CRASH_ON_CORRUPTION\<close>, a failed \<open>CHECK_CONDITION\<close>, an integer division by
  zero, and a read through a null \<open>Span*\<close>.
\<close>

datatype fault = Aborted | CheckFailed | DivideByZero | NullDereference

definition PageIdContaining :: "build \<Rightarrow> addr \<Rightarrow> PageId" where
  "PageIdContaining b p = drop_bit (kPageShift b) p"

definition start_addr :: "build \<Rightarrow> PageId \<Rightarrow> addr" where
  "start_addr b p = push_bit (kPageShift b) p"

definition Log :: "string \<Rightarrow> tc_globals \<Rightarrow> tc_globals" where
  "Log msg s = s\<lparr>logged := logged s @ [msg]\<rparr>"

section \<open>Bounds checks\<close>

text \<open>
  The lookup shared by \<open>do_gep_check_boundary\<close>, \<open>do_bc_check_boundary\<close> and
  \<open>do_get_chunk_end\<close>: object size and span start from the packed page-table
  word when its low byte (the compact size class) is nonzero, else from the
  Span; \<open>None\<close> when there is no Span either.
\<close>

definition chunk_lookup :: "build \<Rightarrow> tc_globals \<Rightarrow> addr \<Rightarrow> (size_t \<times> addr) option" where
  "chunk_lookup b s base =
     (let p = PageIdContaining b base;
          page_info = get_page_info s p;
          size_class = page_info AND 0xFF
      in if size_class \<noteq> 0
         then Some (class_to_size b size_class, start_addr b (drop_bit 8 page_info))
         else (case GetDescriptor s p of
                 None \<Rightarrow> None
               | Some sp \<Rightarrow> Some (ucast (obj_size (span_heap s sp)) * 8,
                                  start_address (span_heap s sp))))"

definition chunk_start_of :: "size_t \<Rightarrow> addr \<Rightarrow> addr \<Rightarrow> addr" where
  "chunk_start_of osz start base = start + ((base - start) div osz) * osz"

text \<open>The tail of both checks after the containment test has failed.\<close>

definition report_oob :: "build \<Rightarrow> tc_globals \<Rightarrow> fault + int \<times> tc_globals" where
  "report_oob b s =
     (let s' = (if ENABLE_ERROR_REPORT b then Log ''OOB detected'' s else s)
      in if CRASH_ON_CORRUPTION b then Inl Aborted else Inr (- 1, s'))"

definition do_gep_check_boundary ::
  "build \<Rightarrow> tc_globals \<Rightarrow> addr \<Rightarrow> addr \<Rightarrow> size_t \<Rightarrow> fault + int \<times> tc_globals" where
  "do_gep_check_boundary b s base ptr sz =
     (case chunk_lookup b s base of
        None \<Rightarrow> Inr (1, s)
      | Some (osz, start) \<Rightarrow>
          if osz = 0 then Inl DivideByZero
          else let chunk_start = chunk_start_of osz start base;
                   chunk_end = chunk_start + osz
               in if ptr \<ge> chunk_start \<and> ptr + sz \<le> chunk_end
                  then Inr (0, s)
                  else report_oob b s)"

definition do_bc_check_boundary ::
  "build \<Rightarrow> tc_globals \<Rightarrow> addr \<Rightarrow> size_t \<Rightarrow> fault + int \<times> tc_globals" where
  "do_bc_check_boundary b s base sz =
     (case chunk_lookup b s base of
        None \<Rightarrow> Inr (1, s)
      | Some (osz, start) \<Rightarrow>
          if osz = 0 then Inl DivideByZero
          else let chunk_start = chunk_start_of osz start base;
                   chunk_end = chunk_start + osz
               in if base \<ge> chunk_start \<and> base + sz \<le> chunk_end
                  then Inr (0, s)
                  else report_oob b s)"

definition TCMallocInternalGepCheckBoundary ::
  "build \<Rightarrow> tc_globals \<Rightarrow> addr \<Rightarrow> addr \<Rightarrow> size_t \<Rightarrow> fault + int \<times> tc_globals" where
  "TCMallocInternalGepCheckBoundary b s base ptr sz =
     (if ENABLE_PROTECTION b then do_gep_check_boundary b s base ptr sz else Inr (0, s))"

definition TCMallocInternalBcCheckBoundary ::
  "build \<Rightarrow> tc_globals \<Rightarrow> addr \<Rightarrow> size_t \<Rightarrow> fault + int \<times> tc_globals" where
  "TCMallocInternalBcCheckBoundary b s base sz =
     (if ENABLE_PROTECTION b then do_bc_check_boundary b s base sz else Inr (0, s))"

section \<open>Escape tracking\<close>

text \<open>
  Modelled from the spec: \<open>Static::escape_allocator()\<close> (a \<open>PageHeapAllocator\<close>
  of 16-byte chunks, declared outside tcmalloc.cc) is the "dedicated
  small-object arena inside the allocator" of the data model. \<open>Delete\<close> puts
  the chunk on the free list; \<open>New\<close> reuses the chunk returned last, or carves
  a fresh one.
\<close>

definition alloc_escape :: "tc_globals \<Rightarrow> addr \<times> tc_globals" where
  "alloc_escape s =
     (let a = escape_allocator s
      in case free_chunks a of
           c # cs \<Rightarrow> (c, s\<lparr>escape_allocator := a\<lparr>free_chunks := cs\<rparr>\<rparr>)
         | [] \<Rightarrow> (fresh a, s\<lparr>escape_allocator := a\<lparr>fresh := fresh a + 16\<rparr>\<rparr>))"

definition delete_escape :: "escape \<Rightarrow> tc_globals \<Rightarrow> tc_globals" where
  "delete_escape e s =
     (let a = escape_allocator s
      in s\<lparr>escape_allocator := a\<lparr>free_chunks := chunk e # free_chunks a\<rparr>\<rparr>)"

definition set_escape_list ::
  "nat \<Rightarrow> (int \<Rightarrow> escape list) option \<Rightarrow> tc_globals \<Rightarrow> tc_globals" where
  "set_escape_list sp l s =
     s\<lparr>span_heap := (span_heap s)(sp := (span_heap s sp)\<lparr>escape_list := l\<rparr>)\<rparr>"

text \<open>
  The loop of \<open>poison_escapes\<close>. The store under the test
  \<open>ptr <= cur_addr && cur_addr < end\<close> is commented out in the source, so both
  branches leave the state as it is.
\<close>

fun poison_chain :: "escape list \<Rightarrow> addr \<Rightarrow> addr \<Rightarrow> tc_globals \<Rightarrow> tc_globals" where
  "poison_chain [] ptr end s = s"
| "poison_chain (cur # next) ptr end s =
     (let cur_addr = memory s (loc cur);
          s1 = (if ptr \<le> cur_addr \<and> cur_addr < end then s else s)
      in poison_chain next ptr end (delete_escape cur s1))"

text \<open>The chain \<open>span->escape_list[idx]\<close>; a null \<open>escape_list\<close> has no chains.\<close>

definition chain_at :: "Span \<Rightarrow> int \<Rightarrow> escape list" where
  "chain_at span idx = (case escape_list span of None \<Rightarrow> [] | Some heads \<Rightarrow> heads idx)"

definition poison_escapes :: "nat \<Rightarrow> int \<Rightarrow> addr \<Rightarrow> addr \<Rightarrow> tc_globals \<Rightarrow> tc_globals" where
  "poison_escapes sp idx ptr end s =
     (case escape_list (span_heap s sp) of
        None \<Rightarrow> s
      | Some heads \<Rightarrow>
          if heads idx = [] then s
          else set_escape_list sp (Some (heads(idx := [])))
                 (poison_chain (heads idx) ptr end s))"

definition commit_escape :: "nat \<Rightarrow> addr \<Rightarrow> addr \<Rightarrow> 32 word \<Rightarrow> tc_globals \<Rightarrow> tc_globals" where
  "commit_escape sp l ptr idx s =
     (let s1 = (case escape_list (span_heap s sp) of
                  Some heads \<Rightarrow> s
                | None \<Rightarrow>
                    if objects_per_span (span_heap s sp) \<le> 2
                    then set_escape_list sp (Some (\<lambda>i. [])) (snd (alloc_escape s))
                    else set_escape_list sp (Some (\<lambda>i. [])) s);
          heads = (case escape_list (span_heap s1 sp) of
                     Some h \<Rightarrow> h | None \<Rightarrow> (\<lambda>i. []));
          (c, s2) = alloc_escape s1;
          loc_e = \<lparr>chunk = c, loc = l\<rparr>
      in set_escape_list sp (Some (heads(uint idx := loc_e # heads (uint idx)))) s2)"

text \<open>
  \<open>unsigned idx = ((size_t)ptr - (size_t)span->start_address()) / obj_size\<close>:
  the 64-bit quotient truncated to 32 bits. The callers have excluded a zero
  \<open>obj_size\<close>.
\<close>

definition slot_index :: "Span \<Rightarrow> addr \<Rightarrow> 32 word" where
  "slot_index span ptr =
     ucast ((ptr - start_address span) div (ucast (obj_size span) * 8))"

definition slot_start :: "Span \<Rightarrow> addr \<Rightarrow> addr" where
  "slot_start span ptr =
     start_address span + (ucast (obj_size span) * 8) * ucast (slot_index span ptr)"

text \<open>
  The test \<open>obj_start <= (size_t)old_ptr && (size_t)old_ptr < obj_start+obj_size\<close>
  of \<open>do_escape\<close> on \<open>old_ptr = *loc\<close>: the cell at \<open>l\<close> already holds a pointer
  into the slot derived from \<open>ptr\<close>.
\<close>

definition aims_into_slot :: "tc_globals \<Rightarrow> Span \<Rightarrow> addr \<Rightarrow> addr \<Rightarrow> bool" where
  "aims_into_slot s span l ptr =
     (let obj_start = slot_start span ptr;
          old_ptr = memory s l
      in obj_start \<le> old_ptr \<and> old_ptr < obj_start + ucast (obj_size span) * 8)"

text \<open>One iteration of the commit loop of \<open>do_escape\<close>, for the pending pair \<open>(l, ptr)\<close>.\<close>

definition commit_entry :: "build \<Rightarrow> addr \<times> addr \<Rightarrow> tc_globals \<Rightarrow> tc_globals" where
  "commit_entry b e s =
     (let l = fst e; ptr = snd e
      in if memory s l = ptr
         then (case GetDescriptor s (PageIdContaining b ptr) of
                 None \<Rightarrow> s
               | Some sp \<Rightarrow>
                   if obj_size (span_heap s sp) = 0 then s
                   else let idx = slot_index (span_heap s sp) ptr
                        in if idx \<ge> 1024 then s
                           else commit_escape sp l ptr idx s)
         else s)"

text \<open>
  The commit loop \<open>for (int i=0; i<CACHE_SIZE; i++)\<close>, run over the indices
  that are left. It assigns the parameters \<open>loc\<close> and \<open>ptr\<close> of \<open>do_escape\<close>,
  so they are threaded through and returned.
\<close>

fun commit_loop ::
  "build \<Rightarrow> nat list \<Rightarrow> addr \<times> addr \<Rightarrow> tc_globals \<Rightarrow> (addr \<times> addr) \<times> tc_globals" where
  "commit_loop b [] cur s = (cur, s)"
| "commit_loop b (i # is) cur s =
     commit_loop b is (escape_caches s i) (commit_entry b (escape_caches s i) s)"

text \<open>
  \<open>do_escape\<close>. The two diagnostic lines of the paths that return -1 are
  written with \<open>printf\<close>, not with \<open>Log\<close>.
\<close>

definition do_escape :: "build \<Rightarrow> tc_globals \<Rightarrow> addr \<Rightarrow> addr \<Rightarrow> int \<times> tc_globals" where
  "do_escape b s l ptr =
     (case GetDescriptor s (PageIdContaining b l) of
        None \<Rightarrow> (- 1, s)
      | Some loc_span \<Rightarrow>
          (case GetDescriptor s (PageIdContaining b ptr) of
             None \<Rightarrow> (- 1, s)
           | Some sp \<Rightarrow>
               let span = span_heap s sp
               in if ucast (obj_size span) * (8 :: size_t) = 0
                  then (- 1, s\<lparr>events := events s @ [Printf ''span obj size is 0'']\<rparr>)
                  else
                    let idx = slot_index span ptr
                    in if aims_into_slot s span l ptr
                       then (0, s)
                       else if idx \<ge> objects_per_span span
                       then (- 1, s\<lparr>events := events s @ [Printf ''span obj_per_span idx'']\<rparr>)
                       else
                         let (cur, s1) =
                               (if escape_pos s = CACHE_SIZE b
                                then (let (cur', s') = commit_loop b [0..<CACHE_SIZE b] (l, ptr) s
                                      in (cur', s'\<lparr>escape_pos := 0\<rparr>))
                                else ((l, ptr), s))
                         in (0, s1\<lparr>escape_caches := (escape_caches s1)(escape_pos s1 := cur),
                                    escape_pos := escape_pos s1 + 1\<rparr>)))"

section \<open>Free\<close>

text \<open>
  \<open>GetSize\<close>. \<open>GetExistingDescriptor\<close> is read through the same table as
  \<open>GetDescriptor\<close>; the source dereferences its result without a test.
  \<open>bytes_in_span()\<close> is \<open>num_pages\<close> pages.
\<close>

definition bytes_in_span :: "build \<Rightarrow> Span \<Rightarrow> size_t" where
  "bytes_in_span b span = push_bit (kPageShift b) (num_pages span)"

definition GetSize :: "build \<Rightarrow> tc_globals \<Rightarrow> addr \<Rightarrow> fault + size_t" where
  "GetSize b s ptr =
     (if ptr = 0 then Inr 0
      else let p = PageIdContaining b ptr;
               size_class = sizeclass s p
           in if size_class \<noteq> 0 then Inr (class_to_size b (ucast size_class))
              else (case GetDescriptor s p of
                      None \<Rightarrow> Inl NullDereference
                    | Some sp \<Rightarrow>
                        (case sampled_allocated_size (span_heap s sp) of
                           Some allocated_size \<Rightarrow>
                             if PointerIsMine s ptr then Inr (GetRequestedSize s ptr)
                             else Inr allocated_size
                         | None \<Rightarrow> Inr (bytes_in_span b (span_heap s sp)))))"

text \<open>
  \<open>FreeSmall\<close> ends in \<open>Deallocate(ptr, size_class)\<close> on the CPU cache or the
  thread cache, or in \<open>InsertRange\<close> on the transfer cache; \<open>do_free_pages\<close>
  checks that the page has a Span and hands it to the page allocator. Both
  are recorded in the trace.
\<close>

definition FreeSmall :: "addr \<Rightarrow> size_t \<Rightarrow> tc_globals \<Rightarrow> tc_globals" where
  "FreeSmall ptr cl s = s\<lparr>events := events s @ [CacheDeallocate ptr cl]\<rparr>"

definition do_free_pages :: "addr \<Rightarrow> PageId \<Rightarrow> tc_globals \<Rightarrow> fault + tc_globals" where
  "do_free_pages ptr p s =
     (case GetDescriptor s p of
        None \<Rightarrow> Inl CheckFailed
      | Some sp \<Rightarrow> Inr (s\<lparr>events := events s @ [PagesDelete ptr]\<rparr>))"

text \<open>
  The \<open>ENABLE_PROTECTION\<close> block of \<open>do_free_with_size_class\<close>. The result
  \<open>(False, s')\<close> is the early \<open>return\<close> after a report; \<open>(True, s')\<close> falls
  through to the deallocation.
\<close>

definition free_protection ::
  "build \<Rightarrow> tc_globals \<Rightarrow> addr \<Rightarrow> PageId \<Rightarrow> fault + bool \<times> tc_globals" where
  "free_protection b s ptr p =
     (case GetDescriptor s p of
        Some sp \<Rightarrow>
          (case GetSize b s ptr of
             Inl f \<Rightarrow> Inl f
           | Inr osz \<Rightarrow>
               if osz \<noteq> ucast (obj_size (span_heap s sp)) * 8 then Inl CheckFailed
               else if osz = 0 then Inl CheckFailed
               else
                 let start = start_address (span_heap s sp)
                 in if (ptr - start) mod osz \<noteq> 0
                    then (let s' = Log ''double/invalid free detected'' s
                          in if CRASH_ON_CORRUPTION b then Inl Aborted else Inr (False, s'))
                    else
                      let idx = sint (ucast ((ptr - start) div osz) :: 32 word)
                      in Inr (True, poison_escapes sp idx ptr (ptr + osz) s))
      | None \<Rightarrow>
          (let s' = (if ptr AND 0xdeadbeef00000000 = 0xdeadbeef00000000
                     then Log ''double/invalid free detected'' s
                     else Log ''freeing a pointer with no span'' s)
           in if CRASH_ON_CORRUPTION b then Inl Aborted else Inr (False, s')))"

text \<open>
  The end of \<open>do_free_with_size_class\<close>, after the protection block: the
  deposit in a cache, or the return of the pages.
\<close>

definition deallocate ::
  "build \<Rightarrow> bool \<Rightarrow> tc_globals \<Rightarrow> addr \<Rightarrow> size_t \<Rightarrow> fault + tc_globals" where
  "deallocate b have_cl s ptr cl =
     (let p = PageIdContaining b ptr;
          cl' = (if have_cl then cl else ucast (sizeclass s p))
      in if have_cl \<or> cl' \<noteq> 0
         then Inr (FreeSmall ptr cl' s)
         else do_free_pages ptr p s)"

definition do_free_with_size_class ::
  "build \<Rightarrow> bool \<Rightarrow> tc_globals \<Rightarrow> addr \<Rightarrow> size_t \<Rightarrow> fault + tc_globals" where
  "do_free_with_size_class b have_cl s ptr cl =
     (let p = PageIdContaining b ptr
      in if \<not> have_cl \<and> ptr = 0 then Inr s
         else
           (case (if ENABLE_PROTECTION b then free_protection b s ptr p else Inr (True, s)) of
              Inl f \<Rightarrow> Inl f
            | Inr (False, s1) \<Rightarrow> Inr s1
            | Inr (True, s1) \<Rightarrow> deallocate b have_cl s1 ptr cl))"

definition do_free :: "build \<Rightarrow> tc_globals \<Rightarrow> addr \<Rightarrow> fault + tc_globals" where
  "do_free b s ptr = do_free_with_size_class b False s ptr 0"

section \<open>String guards\<close>

definition do_get_chunk_end :: "build \<Rightarrow> tc_globals \<Rightarrow> addr \<Rightarrow> fault + size_t" where
  "do_get_chunk_end b s base =
     (case chunk_lookup b s base of
        None \<Rightarrow> Inr 0x1000000000000
      | Some (osz, start) \<Rightarrow>
          if osz = 0 then Inl DivideByZero
          else Inr (chunk_start_of osz start base + osz))"

text \<open>
  The loop \<open>while (*src)\<close> of \<open>do_strcpy_check\<close>, with a bound on the number
  of times the condition is tested: \<open>None\<close> when the bound is used up before
  the loop is left.
\<close>

fun strcpy_loop ::
  "build \<Rightarrow> nat \<Rightarrow> addr \<Rightarrow> addr \<Rightarrow> addr \<Rightarrow> addr \<Rightarrow> tc_globals
     \<Rightarrow> (fault + addr \<times> tc_globals) option" where
  "strcpy_loop b 0 dst_end src_end dst src s = None"
| "strcpy_loop b (Suc n) dst_end src_end dst src s =
     (if bytes s src = 0 then Some (Inr (dst, s))
      else if src < src_end \<and> dst < dst_end
      then strcpy_loop b n dst_end src_end (dst + 1) (src + 1)
             (s\<lparr>bytes := (bytes s)(dst := bytes s src)\<rparr>)
      else (let s' = (if ENABLE_ERROR_REPORT b then Log ''OOB detected'' s else s)
            in if CRASH_ON_CORRUPTION b then Some (Inl Aborted)
               else strcpy_loop b n dst_end src_end dst src s'))"

definition do_strcpy_check ::
  "build \<Rightarrow> nat \<Rightarrow> tc_globals \<Rightarrow> addr \<Rightarrow> addr \<Rightarrow> (fault + addr \<times> tc_globals) option" where
  "do_strcpy_check b n s dst0 src0 =
     (case do_get_chunk_end b s dst0 of
        Inl f \<Rightarrow> Some (Inl f)
      | Inr dst_end \<Rightarrow>
          (case do_get_chunk_end b s src0 of
             Inl f \<Rightarrow> Some (Inl f)
           | Inr src_end \<Rightarrow>
               (case strcpy_loop b n dst_end src_end dst0 src0 s of
                  None \<Rightarrow> None
                | Some (Inl f) \<Rightarrow> Some (Inl f)
                | Some (Inr (dst, s')) \<Rightarrow>
                    Some (Inr (dst0, s'\<lparr>bytes := (bytes s')(dst := 0)\<rparr>)))))"

section \<open>Allocation\<close>

text \<open>
  Modelled from the spec: \<open>Policy::handle_oom\<close> (tcmalloc_policy.h is outside
  tcmalloc.cc). On out of memory "the nothrow variants return a null
  pointer, others invoke the configured OOM handler which may abort"; the
  policy of \<open>malloc\<close>, \<open>calloc\<close> and \<open>realloc\<close> returns a null pointer.
\<close>

datatype oom_policy = MallocOomPolicy | NullOomPolicy | CppOomPolicy

definition handle_oom :: "oom_policy \<Rightarrow> size_t \<Rightarrow> fault + addr" where
  "handle_oom pol sz = (case pol of CppOomPolicy \<Rightarrow> Inl Aborted | _ \<Rightarrow> Inr 0)"

text \<open>
  The collaborators of the allocation path that live outside tcmalloc.cc, as
  parameters: the thread sampler (\<open>TryRecordAllocationFast\<close>, which also
  stands for the test that a thread cache exists in the per-thread build,
  \<open>ShouldSampleAllocation\<close>, that is \<open>RecordAllocation\<close>, and
  \<open>ShouldSampleGuardedAllocation\<close>), the CPU (or thread) cache (\<open>Allocate\<close>),
  the guarded page allocator (\<open>GuardedAllocate\<close> is
  \<open>guardedpage_allocator().Allocate(size, alignment)\<close>), the constructor
  \<open>Span::New(p, num_pages)\<close> of a descriptor, and the page allocator (\<open>New\<close>
  with the tag \<open>kSampled\<close>, and \<open>NewAligned\<close>). Each may change the state.
\<close>

record backend =
  TryRecordAllocationFast :: "tc_globals \<Rightarrow> size_t \<Rightarrow> bool \<times> tc_globals"
  Allocate :: "tc_globals \<Rightarrow> size_t \<Rightarrow> addr \<times> tc_globals"
  ShouldSampleAllocation :: "tc_globals \<Rightarrow> size_t \<Rightarrow> size_t \<times> tc_globals"
  ShouldSampleGuardedAllocation :: "tc_globals \<Rightarrow> bool \<times> tc_globals"
  GuardedAllocate :: "tc_globals \<Rightarrow> size_t \<Rightarrow> size_t \<Rightarrow> addr \<times> tc_globals"
  Span_New :: "tc_globals \<Rightarrow> PageId \<Rightarrow> size_t \<Rightarrow> nat \<times> tc_globals"
  New :: "tc_globals \<Rightarrow> size_t \<Rightarrow> nat option \<times> tc_globals"
  NewAligned :: "tc_globals \<Rightarrow> size_t \<Rightarrow> nat option \<times> tc_globals"

text \<open>\<open>Allocate<Policy::handle_oom>(size_class)\<close>: the policy decides what a miss returns.\<close>

definition cache_allocate ::
  "build \<Rightarrow> backend \<Rightarrow> oom_policy \<Rightarrow> tc_globals \<Rightarrow> size_t \<Rightarrow> fault + addr \<times> tc_globals" where
  "cache_allocate b k pol s cl =
     (let (p, s') = Allocate k s cl
      in if p = 0
         then (case handle_oom pol (class_to_size b cl) of
                 Inl f \<Rightarrow> Inl f
               | Inr r \<Rightarrow> Inr (r, s'))
         else Inr (p, s'))"

text \<open>
  Modelled from the spec: \<open>BytesToLengthCeil\<close> (pages.h is outside tcmalloc.cc)
  "rounds up to a multiple of the page size" and gives the number of pages.
\<close>

definition BytesToLengthCeil :: "build \<Rightarrow> size_t \<Rightarrow> size_t" where
  "BytesToLengthCeil b n =
     drop_bit (kPageShift b) n + (if take_bit (kPageShift b) n > 0 then 1 else 0)"

text \<open>
  The assignments to \<open>span->objects_per_span\<close> and \<open>span->obj_size\<close>, which
  end \<open>do_malloc_pages\<close> and occur twice in \<open>SampleifyAllocation\<close>.
\<close>

definition stamp_span :: "nat \<Rightarrow> 32 word \<Rightarrow> 32 word \<Rightarrow> tc_globals \<Rightarrow> tc_globals" where
  "stamp_span sp num_objects osz s =
     s\<lparr>span_heap := (span_heap s)
          (sp := (span_heap s sp)\<lparr>objects_per_span := num_objects, obj_size := osz\<rparr>)\<rparr>"

text \<open>
  \<open>FreeSmallSlow\<close> ends in \<open>Deallocate(ptr, size_class)\<close> or \<open>InsertRange\<close>, as
  \<open>FreeSmall\<close> does.
\<close>

definition FreeSmallSlow :: "addr \<Rightarrow> size_t \<Rightarrow> tc_globals \<Rightarrow> tc_globals" where
  "FreeSmallSlow ptr cl s = s\<lparr>events := events s @ [CacheDeallocate ptr cl]\<rparr>"

definition TrySampleGuardedAllocation ::
  "backend \<Rightarrow> tc_globals \<Rightarrow> size_t \<Rightarrow> size_t \<Rightarrow> size_t \<Rightarrow> addr \<times> tc_globals" where
  "TrySampleGuardedAllocation k s sz alignment n_pages =
     (if n_pages = 1
      then (let (guarded, s1) = ShouldSampleGuardedAllocation k s
            in if guarded then GuardedAllocate k s1 sz alignment else (0, s1))
      else (0, s))"

text \<open>
  Modelled from the spec: \<open>pagemap().Set(p, span)\<close> (pagemap.h is outside
  tcmalloc.cc) enters the Span in the page map, the "lookup: heap address
  \<rightarrow> owning Span", for the page \<open>p\<close>.
\<close>

definition pagemap_Set :: "PageId \<Rightarrow> nat \<Rightarrow> tc_globals \<Rightarrow> tc_globals" where
  "pagemap_Set p sp s = s\<lparr>GetDescriptor := (GetDescriptor s)(p \<mapsto> sp)\<rparr>"

text \<open>
  The loop \<open>for (Length i=Length(0); i<num_pages; ++i) pagemap().Set(p+i, span)\<close>
  of \<open>SampleifyAllocation\<close>.
\<close>

definition set_pages :: "PageId \<Rightarrow> size_t \<Rightarrow> nat \<Rightarrow> tc_globals \<Rightarrow> tc_globals" where
  "set_pages p n_pages sp s =
     fold (\<lambda>i. pagemap_Set (p + of_nat i) sp) [0..<unat n_pages] s"

text \<open>
  The end of \<open>SampleifyAllocation\<close>, from the stack trace on, for the span
  \<open>sp\<close> that carries the sample. \<open>ReportMalloc\<close> and \<open>Register\<close> record the
  sample; \<open>span->Sample\<close> marks the span as sampled, with the allocated size
  that \<open>GetSize\<close> reads back; the span is stamped, which divides by the
  allocated size; an object that is not kept as proxy goes back to the
  cache. The fragmentation counter and the peak tracker are statistics, not
  part of the model.
\<close>

definition record_sample ::
  "build \<Rightarrow> tc_globals \<Rightarrow> size_t \<Rightarrow> size_t \<Rightarrow> size_t \<Rightarrow> addr \<Rightarrow> nat \<Rightarrow> size_t \<Rightarrow> addr
     \<Rightarrow> fault + addr \<times> tc_globals" where
  "record_sample b s requested_size weight cl obj sp allocated_size guarded_alloc =
     (let s1 = s\<lparr>events := events s @ [ReportMalloc requested_size allocated_size weight]\<rparr>;
          s2 = s1\<lparr>span_heap := (span_heap s1)
                 (sp := (span_heap s1 sp)\<lparr>sampled_allocated_size := Some allocated_size\<rparr>)\<rparr>
      in if allocated_size = 0 then Inl DivideByZero
         else
           let s3 = stamp_span sp
                      (ucast (bytes_in_span b (span_heap s2 sp) div allocated_size))
                      (ucast (allocated_size div 8)) s2;
               s4 = (if obj \<noteq> 0 then FreeSmallSlow obj cl s3 else s3)
           in Inr (if guarded_alloc \<noteq> 0 then guarded_alloc
                   else start_address (span_heap s4 sp), s4))"

text \<open>
  \<open>SampleifyAllocation(policy, requested_size, weight, size_class, obj, span,
  capacity)\<close>, with \<open>capacity\<close> null, as \<open>malloc\<close>, \<open>calloc\<close> and \<open>realloc\<close>
  pass it, and the default alignment (\<open>requested_alignment\<close> 0). With a size
  class the sample gets a span of its own: a guarded page, if the sampler
  says so, with a new descriptor that is entered in the page map and
  stamped, or else pages of the page allocator; when there are none the
  object is returned as it is. The object becomes the proxy unless the
  class has one object per span. Without a size class the span given is the
  one that is sampled.
\<close>

definition SampleifyAllocation ::
  "build \<Rightarrow> backend \<Rightarrow> tc_globals \<Rightarrow> size_t \<Rightarrow> size_t \<Rightarrow> size_t \<Rightarrow> addr \<Rightarrow> nat option
     \<Rightarrow> fault + addr \<times> tc_globals" where
  "SampleifyAllocation b k s requested_size weight cl obj span =
     (if \<not> ((cl \<noteq> 0 \<and> obj \<noteq> 0 \<and> span = None) \<or> (cl = 0 \<and> obj = 0 \<and> span \<noteq> None))
      then Inl CheckFailed
      else if cl \<noteq> 0
      then
        (let allocated_size = class_to_size b cl;
             n_pages = BytesToLengthCeil b allocated_size;
             (guarded_alloc, s1) = TrySampleGuardedAllocation k s requested_size 0 n_pages;
             span_size = push_bit (kPageShift b) (class_to_pages b cl)
         in if guarded_alloc \<noteq> 0
            then
              (let p = PageIdContaining b guarded_alloc;
                   (sp, s2) = Span_New k s1 p n_pages;
                   s3 = set_pages p n_pages sp s2
               in if allocated_size = 0 then Inl DivideByZero
                  else
                    let s4 = stamp_span sp (ucast (span_size div allocated_size))
                               (ucast (allocated_size div 8)) s3
                    in record_sample b s4 requested_size weight cl
                         (if span_size div allocated_size \<noteq> 1 then 0 else obj)
                         sp allocated_size guarded_alloc)
            else
              (case New k s1 n_pages of
                 (None, s2) \<Rightarrow> Inr (obj, s2)
               | (Some sp, s2) \<Rightarrow>
                   if allocated_size = 0 then Inl DivideByZero
                   else record_sample b s2 requested_size weight cl
                          (if span_size div allocated_size \<noteq> 1 then 0 else obj)
                          sp allocated_size 0))
      else
        (case span of
           None \<Rightarrow> Inl NullDereference
         | Some sp \<Rightarrow>
             record_sample b s requested_size weight cl obj sp
               (bytes_in_span b (span_heap s sp)) 0))"

definition do_malloc_pages ::
  "build \<Rightarrow> backend \<Rightarrow> tc_globals \<Rightarrow> size_t \<Rightarrow> 32 word \<Rightarrow> fault + addr \<times> tc_globals" where
  "do_malloc_pages b k s sz num_objects =
     (let n_pages = max (BytesToLengthCeil b sz) 1;
          (r, s1) = NewAligned k s n_pages
      in case r of
           None \<Rightarrow> Inr (0, s1)
         | Some sp \<Rightarrow>
             let result = start_address (span_heap s1 sp);
                 (weight, s2) = ShouldSampleAllocation k s1 sz
             in case (if weight \<noteq> 0
                      then (case SampleifyAllocation b k s2 sz weight 0 0 (Some sp) of
                              Inl f \<Rightarrow> Inl f
                            | Inr (r', s3) \<Rightarrow> if result = r' then Inr s3 else Inl CheckFailed)
                      else Inr s2) of
                  Inl f \<Rightarrow> Inl f
                | Inr s3 \<Rightarrow>
                    (case GetSize b s3 result of
                       Inl f \<Rightarrow> Inl f
                     | Inr g \<Rightarrow>
                         Inr (result, stamp_span sp num_objects (ucast (g div 8)) s3)))"

definition AllocSmall ::
  "build \<Rightarrow> backend \<Rightarrow> oom_policy \<Rightarrow> tc_globals \<Rightarrow> size_t \<Rightarrow> size_t \<Rightarrow> fault + addr \<times> tc_globals" where
  "AllocSmall b k pol s cl sz =
     (case cache_allocate b k pol s cl of
        Inl f \<Rightarrow> Inl f
      | Inr (result, s1) \<Rightarrow>
          if result = 0 then Inr (0, s1)
          else let (weight, s2) = ShouldSampleAllocation k s1 sz
               in if weight \<noteq> 0
                  then SampleifyAllocation b k s2 sz weight cl result None
                  else Inr (result, s2))"

definition slow_alloc ::
  "build \<Rightarrow> backend \<Rightarrow> oom_policy \<Rightarrow> tc_globals \<Rightarrow> size_t \<Rightarrow> fault + addr \<times> tc_globals" where
  "slow_alloc b k pol s sz =
     (case GetSizeClass b sz of
        Some cl \<Rightarrow> AllocSmall b k pol s cl sz
      | None \<Rightarrow>
          (case do_malloc_pages b k s sz 1 of
             Inl f \<Rightarrow> Inl f
           | Inr (p, s1) \<Rightarrow>
               if p = 0
               then (case handle_oom pol sz of Inl f \<Rightarrow> Inl f | Inr r \<Rightarrow> Inr (r, s1))
               else Inr (p, s1)))"

definition fast_alloc ::
  "build \<Rightarrow> backend \<Rightarrow> oom_policy \<Rightarrow> tc_globals \<Rightarrow> size_t \<Rightarrow> fault + addr \<times> tc_globals" where
  "fast_alloc b k pol s sz0 =
     (let sz = (if ENABLE_PROTECTION b then sz0 + 1 else sz0)
      in case GetSizeClass b sz of
           None \<Rightarrow> slow_alloc b k pol s sz
         | Some cl \<Rightarrow>
             let (fast, s1) = TryRecordAllocationFast k s sz
             in if \<not> fast then slow_alloc b k pol s1 sz
                else cache_allocate b k pol s1 cl)"

definition TCMallocInternalMallocSize :: "build \<Rightarrow> tc_globals \<Rightarrow> addr \<Rightarrow> fault + size_t" where
  "TCMallocInternalMallocSize b s ptr =
     (case GetSize b s ptr of Inl f \<Rightarrow> Inl f | Inr g \<Rightarrow> Inr (g - 1))"

definition TCMallocInternalCalloc ::
  "build \<Rightarrow> backend \<Rightarrow> tc_globals \<Rightarrow> size_t \<Rightarrow> size_t \<Rightarrow> fault + addr \<times> tc_globals" where
  "TCMallocInternalCalloc b k s n elem_size =
     (let sz = n * elem_size
      in if elem_size \<noteq> 0 \<and> sz div elem_size \<noteq> n
         then (case handle_oom MallocOomPolicy (- 1) of
                 Inl f \<Rightarrow> Inl f
               | Inr r \<Rightarrow> Inr (r, s))
         else (case fast_alloc b k MallocOomPolicy s sz of
                 Inl f \<Rightarrow> Inl f
               | Inr (result, s1) \<Rightarrow>
                   if result \<noteq> 0
                   then Inr (result, s1\<lparr>events := events s1 @ [Memset result sz]\<rparr>)
                   else Inr (result, s1)))"

text \<open>
  The part of \<open>do_realloc\<close> that obtains \<open>new_ptr\<close>: a request of
  \<open>lower_bound_to_grow\<close> bytes that may return null when the new size is a
  small increment, then a request of \<open>new_size\<close> bytes when there is no block
  yet.
\<close>

definition realloc_request ::
  "build \<Rightarrow> backend \<Rightarrow> tc_globals \<Rightarrow> size_t \<Rightarrow> size_t \<Rightarrow> fault + addr \<times> tc_globals" where
  "realloc_request b k s old_size new_size =
     (let min_growth = min (old_size div 4) (- 1 - old_size);
          lower_bound_to_grow = old_size + min_growth
      in case (if new_size > old_size \<and> new_size < lower_bound_to_grow
               then fast_alloc b k NullOomPolicy s lower_bound_to_grow
               else Inr (0, s)) of
           Inl f \<Rightarrow> Inl f
         | Inr (new_ptr, s1) \<Rightarrow>
             if new_ptr = 0 then fast_alloc b k MallocOomPolicy s1 new_size
             else Inr (new_ptr, s1))"

definition do_realloc ::
  "build \<Rightarrow> backend \<Rightarrow> tc_globals \<Rightarrow> addr \<Rightarrow> size_t \<Rightarrow> fault + addr \<times> tc_globals" where
  "do_realloc b k s old_ptr new_size0 =
     (case GetSize b s old_ptr of
        Inl f \<Rightarrow> Inl f
      | Inr old_size \<Rightarrow>
          let new_size = (if ENABLE_PROTECTION b then new_size0 + 1 else new_size0);
              upper_bound_to_shrink = old_size div 2
          in if new_size > old_size \<or> new_size < upper_bound_to_shrink
             then
               (case realloc_request b k s old_size new_size of
                  Inl f \<Rightarrow> Inl f
                | Inr (new_ptr, s2) \<Rightarrow>
                    if new_ptr = 0 then Inr (0, s2)
                    else
                      (case do_free b
                              (s2\<lparr>events := events s2 @
                                   [Memcpy new_ptr old_ptr
                                      (if old_size < new_size then old_size else new_size)]\<rparr>)
                              old_ptr of
                         Inl f \<Rightarrow> Inl f
                       | Inr s3 \<Rightarrow> Inr (new_ptr, s3)))
             else Inr (old_ptr, s))"

definition TCMallocInternalRealloc ::
  "build \<Rightarrow> backend \<Rightarrow> tc_globals \<Rightarrow> addr \<Rightarrow> size_t \<Rightarrow> fault + addr \<times> tc_globals" where
  "TCMallocInternalRealloc b k s old_ptr new_size =
     (if old_ptr = 0 then fast_alloc b k MallocOomPolicy s new_size
      else if new_size = 0
      then (case do_free b s old_ptr of Inl f \<Rightarrow> Inl f | Inr s1 \<Rightarrow> Inr (0, s1))
      else do_realloc b k s old_ptr new_size)"

section \<open>A small heap\<close>

text \<open>
  A build with 8 KiB pages, a commit buffer of two entries and two size
  classes (5: 80 bytes, 6: 128 bytes), and a heap of two one-page spans:
  page 1 (from \<open>0x2000\<close>) carved into 102 objects of class 5, page 2 (from
  \<open>0x4000\<close>) carved into 64 objects of class 6. The backend hands out the
  first object of page 2 and never samples.
\<close>

definition ex_build :: build where
  "ex_build =
     \<lparr>ENABLE_PROTECTION = True, ENABLE_ERROR_REPORT = True, CRASH_ON_CORRUPTION = False,
      kPageShift = 13, CACHE_SIZE = 2,
      class_to_size = (\<lambda>c. if c = 5 then 80 else if c = 6 then 128 else 0),
      class_to_pages = (\<lambda>c. 1),
      GetSizeClass = (\<lambda>n. if n \<le> 80 then Some 5 else if n \<le> 128 then Some 6 else None)\<rparr>"

definition ex_span :: "nat \<Rightarrow> Span" where
  "ex_span i =
     (if i = 0
      then \<lparr>start_address = 0x2000, num_pages = 1, obj_size = 10, objects_per_span = 102,
            escape_list = None, sampled_allocated_size = None\<rparr>
      else \<lparr>start_address = 0x4000, num_pages = 1, obj_size = 16, objects_per_span = 64,
            escape_list = None, sampled_allocated_size = None\<rparr>)"

definition ex_state :: tc_globals where
  "ex_state =
     \<lparr>get_page_info = (\<lambda>p. if p = 1 then 0x105 else if p = 2 then 0x206 else 0),
      GetDescriptor = (\<lambda>p. if p = 1 then Some 0 else if p = 2 then Some 1 else None),
      sizeclass = (\<lambda>p. if p = 1 then 5 else if p = 2 then 6 else 0),
      span_heap = ex_span,
      PointerIsMine = (\<lambda>a. False),
      GetRequestedSize = (\<lambda>a. 0),
      memory = (\<lambda>a. 0),
      bytes = (\<lambda>a. 0x41),
      escape_caches = (\<lambda>i. (0, 0)),
      escape_pos = 0,
      escape_allocator = \<lparr>free_chunks = [], fresh = 0x100000\<rparr>,
      logged = [],
      events = []\<rparr>"

definition ex_backend :: backend where
  "ex_backend =
     \<lparr>TryRecordAllocationFast = (\<lambda>s n. (True, s)),
      Allocate = (\<lambda>s cl. (0x4000, s\<lparr>events := events s @ [CacheAllocate cl]\<rparr>)),
      ShouldSampleAllocation = (\<lambda>s n. (0, s)),
      ShouldSampleGuardedAllocation = (\<lambda>s. (False, s)),
      GuardedAllocate = (\<lambda>s n a. (0, s)),
      Span_New = (\<lambda>s p n. (0, s)),
      New = (\<lambda>s n. (None, s)),
      NewAligned = (\<lambda>s n. (None, s))\<rparr>"

definition ex_escape_state :: tc_globals where
  "ex_escape_state = ex_state\<lparr>memory := (\<lambda>a. if a = 0x2000 then 0x3FE8 else 0)\<rparr>"

text \<open>
  The commit buffer is full; its first entry \<open>(0x2000, 0x3FE0)\<close> still has
  \<open>*loc == ptr\<close>, and \<open>ptr\<close> lies behind the last of the 102 slots of its span.
\<close>

definition ex_commit_state :: tc_globals where
  "ex_commit_state =
     ex_state\<lparr>memory := (\<lambda>a. if a = 0x2000 then 0x3FE0 else 0),
              escape_caches := (\<lambda>i. if i = 0 then (0x2000, 0x3FE0) else (0, 0)),
              escape_pos := 2\<rparr>"

text \<open>
  Slot 1 of the span of page 1 (the object from \<open>0x2050\<close> to \<open>0x20A0\<close>) has a
  chain of two nodes: the cell at \<open>0x4000\<close> still points into the object, the
  cell at \<open>0x4008\<close> has been overwritten with \<open>0x112233\<close>.
\<close>

definition ex_chain_state :: tc_globals where
  "ex_chain_state =
     ex_state\<lparr>span_heap := (\<lambda>i. if i = 0
                  then (ex_span 0)\<lparr>escape_list := Some (\<lambda>j. if j = 1
                         then [\<lparr>chunk = 0x100010, loc = 0x4000\<rparr>,
                               \<lparr>chunk = 0x100000, loc = 0x4008\<rparr>]
                         else [])\<rparr>
                  else ex_span i),
              memory := (\<lambda>a. if a = 0x4000 then 0x2050 else if a = 0x4008 then 0x112233 else 0),
              escape_allocator := \<lparr>free_chunks = [], fresh = 0x100020\<rparr>\<rparr>"

text \<open>
  A string of three characters that begins at \<open>0x204F\<close>, the last byte of the
  object from \<open>0x2000\<close> to \<open>0x2050\<close>; its terminator is at \<open>0x2052\<close>.
\<close>

definition ex_string_state :: tc_globals where
  "ex_string_state = ex_state\<lparr>bytes := (\<lambda>a. if a = 0x2052 then 0 else 0x41)\<rparr>"

text \<open>
  A page allocator that serves every request with a span from \<open>0x6000\<close>
  (page 3) of the number of pages asked for, registered in the page map
  without a size class. The sampler never samples.
\<close>

definition ex_new_span :: "size_t \<Rightarrow> tc_globals \<Rightarrow> tc_globals" where
  "ex_new_span n s =
     s\<lparr>GetDescriptor := (GetDescriptor s)(3 := Some 2),
       sizeclass := (sizeclass s)(3 := 0),
       span_heap := (span_heap s)
         (2 := \<lparr>start_address = 0x6000, num_pages = n, obj_size = 0,
                objects_per_span = 0, escape_list = None,
                sampled_allocated_size = None\<rparr>),
       PointerIsMine := (PointerIsMine s)(0x6000 := False)\<rparr>"

definition ex_page_backend :: backend where
  "ex_page_backend =
     \<lparr>TryRecordAllocationFast = (\<lambda>s n. (True, s)),
      Allocate = (\<lambda>s cl. (0, s)),
      ShouldSampleAllocation = (\<lambda>s n. (0, s)),
      ShouldSampleGuardedAllocation = (\<lambda>s. (False, s)),
      GuardedAllocate = (\<lambda>s n a. (0, s)),
      Span_New = (\<lambda>s p n. (0, s)),
      New = (\<lambda>s n. (None, s)),
      NewAligned = (\<lambda>s n. (Some 2, ex_new_span n s))\<rparr>"

text \<open>
  A thread on the slow path whose sampler samples every allocation, without
  guarded pages. The cache serves class 6 only, with the first object of
  page 2, and registers the page with that class; the page allocator is the
  one above.
\<close>

definition ex_sampling_backend :: backend where
  "ex_sampling_backend =
     \<lparr>TryRecordAllocationFast = (\<lambda>s n. (False, s)),
      Allocate = (\<lambda>s cl. if cl = 6
                          then (0x4000, s\<lparr>sizeclass := (sizeclass s)(2 := 6)\<rparr>)
                          else (0, s)),
      ShouldSampleAllocation = (\<lambda>s n. (1, s)),
      ShouldSampleGuardedAllocation = (\<lambda>s. (False, s)),
      GuardedAllocate = (\<lambda>s n a. (0, s)),
      Span_New = (\<lambda>s p n. (0, s)),
      New = (\<lambda>s n. (Some 2, ex_new_span n s)),
      NewAligned = (\<lambda>s n. (Some 2, ex_new_span n s))\<rparr>"

text \<open>
  The same thread with a guarded page allocator: every sample of one page is
  placed at \<open>0x8000\<close> (page 4), which the allocator owns and for which it
  remembers the size asked for; the descriptor made for it is span 3. The
  page allocator has no pages with the tag \<open>kSampled\<close>.
\<close>

definition ex_guarded_backend :: backend where
  "ex_guarded_backend =
     \<lparr>TryRecordAllocationFast = (\<lambda>s n. (False, s)),
      Allocate = (\<lambda>s cl. if cl = 6
                          then (0x4000, s\<lparr>sizeclass := (sizeclass s)(2 := 6)\<rparr>)
                          else (0, s)),
      ShouldSampleAllocation = (\<lambda>s n. (1, s)),
      ShouldSampleGuardedAllocation = (\<lambda>s. (True, s)),
      GuardedAllocate = (\<lambda>s n a.
        (0x8000, s\<lparr>sizeclass := (sizeclass s)(4 := 0),
                   PointerIsMine := (PointerIsMine s)(0x8000 := True),
                   GetRequestedSize := (GetRequestedSize s)(0x8000 := n)\<rparr>)),
      Span_New = (\<lambda>s p n.
        (3, s\<lparr>span_heap := (span_heap s)
               (3 := \<lparr>start_address = push_bit 13 p, num_pages = n, obj_size = 0,
                      objects_per_span = 0, escape_list = None,
                      sampled_allocated_size = None\<rparr>)\<rparr>)),
      New = (\<lambda>s n. (None, s)),
      NewAligned = (\<lambda>s n. (Some 2, ex_new_span n s))\<rparr>"

lemmas ex_simps = ex_state_def ex_build_def ex_span_def PageIdContaining_def

section \<open>Word facts\<close>

lemma ucast8_unat: "unat (ucast (x :: 32 word) * (8 :: 64 word)) = unat x * 8"
proof -
  have lt: "unat x < 2 ^ 32" using unsigned_less [of x] by simp
  have ux: "unat (ucast x :: 64 word) = unat x"
    using lt by (simp add: unsigned_ucast_eq take_bit_nat_eq_self_iff)
  have "unat (ucast x :: 64 word) * unat (8 :: 64 word) < 2 ^ LENGTH(64)"
    using ux lt by simp
  then have "unat (ucast x * 8 :: 64 word) = unat (ucast x :: 64 word) * unat (8 :: 64 word)"
    by (simp only: unat_mult_lem)
  then show ?thesis using ux by simp
qed

lemma ucast8_zero: "(ucast (x :: 32 word) * (8 :: 64 word) = 0) = (x = 0)"
proof -
  have "(ucast x * (8 :: 64 word) = 0) = (unat (ucast x * (8 :: 64 word)) = 0)"
    by (simp add: unat_eq_0)
  also have "\<dots> = (unat x = 0)" by (simp add: ucast8_unat)
  also have "\<dots> = (x = 0)" by (simp add: unat_eq_0)
  finally show ?thesis .
qed

section \<open>The bounds checks\<close>

text \<open>
  C1. \<open>gep_check_boundary(base, ptr, size)\<close> is to return 0 exactly when
  \<open>ptr >= chunk_start\<close> and \<open>ptr + size <= chunk_end\<close>. The source adds
  \<open>ptr + size\<close> in \<open>size_t\<close>: for the object of the small heap at \<open>0x2050\<close>
  (80 bytes, ending at \<open>0x20A0\<close>) and the size \<open>2^64 - 1\<close> the sum wraps to
  \<open>0x204F\<close> and the check answers 0, although the bytes asked for end far
  beyond the end of the chunk.
\<close>

theorem gep_check_boundary_size_wraps:
  "do_gep_check_boundary ex_build ex_state 0x2050 0x2050 0xFFFFFFFFFFFFFFFF = Inr (0, ex_state)
   \<and> chunk_lookup ex_build ex_state 0x2050 = Some (80, 0x2000)
   \<and> chunk_start_of 80 0x2000 0x2050 = 0x2050
   \<and> unat (0x2050 + 80 :: addr) < unat (0x2050 :: addr) + unat (0xFFFFFFFFFFFFFFFF :: size_t)"
  by (simp add: do_gep_check_boundary_def chunk_lookup_def chunk_start_of_def
      PageIdContaining_def start_addr_def ex_build_def ex_state_def)

text \<open>
  The check also divides by the object size without testing it, which
  \<open>do_escape\<close> does. A request of 32 GiB less one byte is padded to 32 GiB and
  served by \<open>do_malloc_pages\<close>, which stamps the span with
  \<open>(uint32_t)(GetSize(result) / 8)\<close>, that is \<open>2^32\<close> truncated to 0; the
  first bounds check on the block then divides by zero.
\<close>

lemma gep_check_boundary_divides_by_zero:
  "(case fast_alloc ex_build ex_page_backend MallocOomPolicy ex_state 0x7FFFFFFFF of
      Inl f \<Rightarrow> False
    | Inr (p, s') \<Rightarrow>
        p = 0x6000 \<and> num_pages (span_heap s' 2) = 0x400000 \<and> obj_size (span_heap s' 2) = 0
        \<and> do_gep_check_boundary ex_build s' p p 1 = Inl DivideByZero)"
  by (simp add: fast_alloc_def slow_alloc_def do_malloc_pages_def BytesToLengthCeil_def
      GetSize_def bytes_in_span_def stamp_span_def do_gep_check_boundary_def chunk_lookup_def
      ex_page_backend_def ex_new_span_def ex_simps)

text \<open>
  C6. \<open>bc_check_boundary(base, size)\<close> gives the result of
  \<open>gep_check_boundary(base, base, size)\<close> in every state, for every base and
  size: the same return code, the same log, the same fault.
\<close>

theorem bc_check_is_gep_check_at_base:
  "do_bc_check_boundary b s base sz = do_gep_check_boundary b s base base sz
   \<and> TCMallocInternalBcCheckBoundary b s base sz
       = TCMallocInternalGepCheckBoundary b s base base sz"
  by (simp add: do_bc_check_boundary_def do_gep_check_boundary_def
      TCMallocInternalBcCheckBoundary_def TCMallocInternalGepCheckBoundary_def)

theorem bc_check_is_gep_check_at_base_witness:
  "TCMallocInternalBcCheckBoundary ex_build ex_state 0x2050 81
     = Inr (- 1, ex_state\<lparr>logged := [''OOB detected'']\<rparr>)"
  using bc_check_is_gep_check_at_base [of ex_build ex_state "0x2050" 81]
  by (simp add: TCMallocInternalGepCheckBoundary_def do_gep_check_boundary_def
      chunk_lookup_def chunk_start_of_def report_oob_def Log_def
      PageIdContaining_def start_addr_def ex_build_def ex_state_def)

section \<open>The return code of escape\<close>

text \<open>
  C2, as stated, fails: \<open>escape\<close> tests whether \<open>*loc\<close> already points into the
  slot derived from \<open>ptr\<close> before it compares the slot index with
  \<open>objects_per_span\<close>. In the small heap the span of page 1 has 102 slots of
  80 bytes; \<open>ptr = 0x3FE0\<close> lies behind the last slot (index 102), the cell at
  \<open>0x2000\<close> holds \<open>0x3FE8\<close>, and the call returns 0.
\<close>

theorem escape_index_out_of_range_returns_0:
  "GetDescriptor ex_escape_state (PageIdContaining ex_build 0x2000) = Some 0
   \<and> GetDescriptor ex_escape_state (PageIdContaining ex_build 0x3FE0) = Some 0
   \<and> obj_size (span_heap ex_escape_state 0) = 10
   \<and> slot_index (span_heap ex_escape_state 0) 0x3FE0 = 102
   \<and> objects_per_span (span_heap ex_escape_state 0) = 102
   \<and> do_escape ex_build ex_escape_state 0x2000 0x3FE0 = (0, ex_escape_state)"
  by (simp add: do_escape_def ex_escape_state_def ex_state_def ex_build_def ex_span_def
      PageIdContaining_def slot_index_def slot_start_def aims_into_slot_def)

text \<open>
  C2, amended. \<open>escape(loc, ptr)\<close> returns -1 or 0. It returns -1 exactly when
  the page of \<open>loc\<close> has no Span, or the page of \<open>ptr\<close> has no Span, or the span
  of \<open>ptr\<close> has object size zero, or the slot index derived from \<open>ptr\<close> (as
  the source computes it, in 32 bits) is at least \<open>objects_per_span\<close> while
  \<open>*loc\<close> does not already point into the slot derived from \<open>ptr\<close>.
\<close>

theorem do_escape_return_code:
  "(fst (do_escape b s l ptr) = - 1 \<or> fst (do_escape b s l ptr) = 0) \<and>
   (fst (do_escape b s l ptr) = - 1 \<longleftrightarrow>
      (GetDescriptor s (PageIdContaining b l) = None
       \<or> (case GetDescriptor s (PageIdContaining b ptr) of
             None \<Rightarrow> True
           | Some sp \<Rightarrow>
               obj_size (span_heap s sp) = 0
               \<or> (objects_per_span (span_heap s sp) \<le> slot_index (span_heap s sp) ptr
                   \<and> \<not> aims_into_slot s (span_heap s sp) l ptr))))"
  by (auto simp add: do_escape_def Let_def ucast8_zero split: option.splits prod.splits)

theorem do_escape_return_code_witness:
  "fst (do_escape ex_build ex_state 0x2000 0x3FE0) = - 1
   \<and> fst (do_escape ex_build ex_state 0x2000 0x20A0) = 0"
proof -
  have l: "GetDescriptor ex_state (PageIdContaining ex_build 0x2000) = Some 0"
    by (simp add: ex_simps)
  have p1: "GetDescriptor ex_state (PageIdContaining ex_build 0x3FE0) = Some 0"
    by (simp add: ex_simps)
  have p2: "GetDescriptor ex_state (PageIdContaining ex_build 0x20A0) = Some 0"
    by (simp add: ex_simps)
  have sp: "obj_size (span_heap ex_state 0) = 10" "objects_per_span (span_heap ex_state 0) = 102"
    by (simp_all add: ex_simps)
  have i1: "slot_index (span_heap ex_state 0) 0x3FE0 = 102"
    and i2: "slot_index (span_heap ex_state 0) 0x20A0 = 2"
    by (simp_all add: ex_simps slot_index_def)
  have a1: "\<not> aims_into_slot ex_state (span_heap ex_state 0) 0x2000 0x3FE0"
    by (simp add: ex_simps aims_into_slot_def slot_start_def slot_index_def)
  show ?thesis
    using do_escape_return_code [of ex_build ex_state "0x2000" "0x3FE0"]
          do_escape_return_code [of ex_build ex_state "0x2000" "0x20A0"]
    by (auto simp add: l p1 p2 sp i1 i2 a1)
qed

section \<open>The commit of pending escapes\<close>

text \<open>
  C3. When \<open>escape\<close> drains a full commit buffer, an entry is to be inserted
  only if \<open>*loc == ptr\<close> still holds and the slot index derived from \<open>ptr\<close> is
  a slot of the span. The loop compares the index with 1024 and not with
  \<open>objects_per_span\<close>: draining \<open>ex_commit_state\<close> prepends a node for the cell
  \<open>0x2000\<close> to the chain of index 102 of a span that has the slots 0 to 101.
\<close>

theorem commit_inserts_beyond_objects_per_span:
  "escape_pos ex_commit_state = CACHE_SIZE ex_build
   \<and> escape_caches ex_commit_state 0 = (0x2000, 0x3FE0)
   \<and> memory ex_commit_state 0x2000 = 0x3FE0
   \<and> GetDescriptor ex_commit_state (PageIdContaining ex_build 0x3FE0) = Some 0
   \<and> slot_index (span_heap ex_commit_state 0) 0x3FE0 = 102
   \<and> objects_per_span (span_heap ex_commit_state 0) = 102
   \<and> chain_at (span_heap ex_commit_state 0) 102 = []
   \<and> chain_at (span_heap (snd (do_escape ex_build ex_commit_state 0x2008 0x20A0)) 0) 102
       = [\<lparr>chunk = 0x100000, loc = 0x2000\<rparr>]"
  by (simp add: do_escape_def commit_entry_def commit_escape_def alloc_escape_def
      set_escape_list_def chain_at_def aims_into_slot_def slot_start_def slot_index_def
      ex_commit_state_def ex_simps upt_rec)

section \<open>Free\<close>

lemma poison_chain_memory: "memory (poison_chain c p e s) = memory s"
  by (induction c arbitrary: s) (simp_all add: delete_escape_def Let_def)

lemma poison_chain_free:
  "free_chunks (escape_allocator (poison_chain c p e s))
     = rev (map chunk c) @ free_chunks (escape_allocator s)"
  by (induction c arbitrary: s) (simp_all add: delete_escape_def Let_def)

lemma poison_chain_span: "span_heap (poison_chain c p e s) = span_heap s"
  by (induction c arbitrary: s) (simp_all add: delete_escape_def Let_def)

text \<open>
  C5. After \<open>poison_escapes(span, idx, obj_begin, obj_end)\<close> the chain of slot
  \<open>idx\<close> is empty (a null \<open>escape_list\<close> has no chain to begin with), the chunks
  of all nodes that were on the chain are on the free list of the escape
  arena, last node first, and every cell \<open>*loc\<close> of a node that held a value
  outside \<open>[obj_begin, obj_end)\<close> holds what it held before.
\<close>

theorem poison_escapes_effect:
  "chain_at (span_heap (poison_escapes sp idx ptr end s) sp) idx = []
   \<and> free_chunks (escape_allocator (poison_escapes sp idx ptr end s))
       = rev (map chunk (chain_at (span_heap s sp) idx)) @ free_chunks (escape_allocator s)
   \<and> (\<forall>e \<in> set (chain_at (span_heap s sp) idx).
         \<not> (ptr \<le> memory s (loc e) \<and> memory s (loc e) < end)
         \<longrightarrow> memory (poison_escapes sp idx ptr end s) (loc e) = memory s (loc e))"
  by (simp add: poison_escapes_def chain_at_def set_escape_list_def
      poison_chain_memory poison_chain_free poison_chain_span split: option.splits)

theorem poison_escapes_effect_witness:
  "chain_at (span_heap ex_chain_state 0) 1
     = [\<lparr>chunk = 0x100010, loc = 0x4000\<rparr>, \<lparr>chunk = 0x100000, loc = 0x4008\<rparr>]
   \<and> chain_at (span_heap (poison_escapes 0 1 0x2050 0x20A0 ex_chain_state) 0) 1 = []
   \<and> free_chunks (escape_allocator (poison_escapes 0 1 0x2050 0x20A0 ex_chain_state))
       = [0x100000, 0x100010]
   \<and> memory (poison_escapes 0 1 0x2050 0x20A0 ex_chain_state) 0x4008 = 0x112233"
proof -
  have c: "chain_at (span_heap ex_chain_state 0) 1
     = [\<lparr>chunk = 0x100010, loc = 0x4000\<rparr>, \<lparr>chunk = 0x100000, loc = 0x4008\<rparr>]"
    by (simp add: ex_chain_state_def chain_at_def)
  have m: "memory ex_chain_state 0x4008 = 0x112233"
    and f: "free_chunks (escape_allocator ex_chain_state) = []"
    by (simp_all add: ex_chain_state_def)
  show ?thesis
    using poison_escapes_effect [of 0 1 "0x2050" "0x20A0" ex_chain_state]
    by (simp add: c m f)
qed




section \<open>The string guard\<close>

lemma strcpy_loop_stuck:
  "bytes s src \<noteq> 0 \<Longrightarrow> \<not> (src < src_end \<and> dst < dst_end) \<Longrightarrow> \<not> CRASH_ON_CORRUPTION b
   \<Longrightarrow> strcpy_loop b n dst_end src_end dst src s = None"
  by (induction n arbitrary: s) (auto simp add: Log_def Let_def)

text \<open>
  C9. \<open>strcpy_check(dst, src)\<close> is to return on every input. In the
  report-only build the branch taken when a cursor has reached the end of its
  chunk logs and does nothing else, so the loop tests the same nonzero byte
  again. The string of \<open>ex_string_state\<close> starts at \<open>0x204F\<close>, the last byte
  of its object, and is terminated at \<open>0x2052\<close>; the destination \<open>0x4000\<close> has
  room for 128 bytes. The loop copies one byte and then never leaves: no
  bound on the number of iterations gives a result.
\<close>

theorem strcpy_check_never_returns:
  "bytes ex_string_state 0x2052 = 0
   \<and> (\<forall>n. do_strcpy_check ex_build n ex_string_state 0x4000 0x204F = None)"
proof
  show "bytes ex_string_state 0x2052 = 0" by (simp add: ex_string_state_def)
next
  show "\<forall>n. do_strcpy_check ex_build n ex_string_state 0x4000 0x204F = None"
  proof
    fix n
    have e1: "do_get_chunk_end ex_build ex_string_state 0x4000 = Inr 0x4080"
      and e2: "do_get_chunk_end ex_build ex_string_state 0x204F = Inr 0x2050"
      by (simp_all add: do_get_chunk_end_def chunk_lookup_def chunk_start_of_def
          start_addr_def ex_string_state_def ex_simps)
    have "strcpy_loop ex_build n 0x4080 0x2050 0x4000 0x204F ex_string_state = None"
    proof (cases n)
      case 0
      then show ?thesis by simp
    next
      case (Suc m)
      have "strcpy_loop ex_build m 0x4080 0x2050 0x4001 0x2050
              (ex_string_state\<lparr>bytes := (bytes ex_string_state)
                                  (0x4000 := bytes ex_string_state 0x204F)\<rparr>) = None"
        by (rule strcpy_loop_stuck) (simp_all add: ex_string_state_def ex_simps)
      then show ?thesis using Suc by (simp add: ex_string_state_def ex_simps)
    qed
    then show "do_strcpy_check ex_build n ex_string_state 0x4000 0x204F = None"
      by (simp add: do_strcpy_check_def e1 e2)
  qed
qed

section \<open>calloc and realloc\<close>

lemma calloc_check_complete:
  fixes n e :: "64 word"
  assumes "unat n * unat e \<ge> 2 ^ 64"
  shows "e \<noteq> 0 \<and> (n * e) div e \<noteq> n"
proof
  show e0: "e \<noteq> 0" using assms by (auto simp: unat_eq_0)
  have ue: "unat e > 0" using e0 by (simp add: unat_gt_0)
  have w: "unat (n * e) < 2 ^ 64" using unsigned_less [of "n * e"] by simp
  have "unat (n * e) < unat n * unat e" using w assms by linarith
  then have "unat (n * e) div unat e < unat n"
    using ue by (simp add: less_mult_imp_div_less)
  then have "unat ((n * e) div e) < unat n" by (simp add: unat_div)
  then show "(n * e) div e \<noteq> n" by auto
qed

text \<open>
  C10. When the product \<open>n * elem_size\<close> does not fit \<open>size_t\<close> (so that the
  test \<open>elem_size != 0 && size / elem_size != n\<close> on the wrapped product
  holds), \<open>calloc\<close> returns the null pointer of the malloc policy and leaves
  the state as it was, whatever the backend: it has not been asked for
  memory and nothing has been set to zero.
\<close>

theorem calloc_overflow_returns_null:
  assumes "2 ^ 64 \<le> unat n * unat elem_size
           \<or> (elem_size \<noteq> 0 \<and> (n * elem_size) div elem_size \<noteq> n)"
  shows "TCMallocInternalCalloc b k s n elem_size = Inr (0, s)"
proof -
  have "elem_size \<noteq> 0 \<and> (n * elem_size) div elem_size \<noteq> n"
    using assms calloc_check_complete [of n elem_size] by blast
  then show ?thesis
    by (simp add: TCMallocInternalCalloc_def handle_oom_def)
qed

theorem calloc_overflow_returns_null_witness:
  "TCMallocInternalCalloc ex_build ex_backend ex_state 0x8000000000000000 2 = Inr (0, ex_state)
   \<and> TCMallocInternalCalloc ex_build ex_backend ex_state 0x5555555555555556 3
       = Inr (0, ex_state)"
proof -
  have a: "2 ^ 64 \<le> unat (0x8000000000000000 :: size_t) * unat (2 :: size_t)" by simp
  have b: "(3 :: size_t) \<noteq> 0
           \<and> (0x5555555555555556 * 3) div 3 \<noteq> (0x5555555555555556 :: size_t)" by simp
  show ?thesis
    using calloc_overflow_returns_null
            [of "0x8000000000000000" 2 ex_build ex_backend ex_state, OF disjI1, OF a]
          calloc_overflow_returns_null
            [of "0x5555555555555556" 3 ex_build ex_backend ex_state, OF disjI2, OF b]
    by simp
qed

lemma if_less_min: "(if x < y then x else y) = min x (y :: size_t)"
  by (auto simp add: min_def)

lemma realloc_request_unfold:
  "realloc_request b k s old new' =
         (if old < new' \<and> new' < old + min (old div 4) (- 1 - old)
          then (case fast_alloc b k NullOomPolicy s (old + min (old div 4) (- 1 - old)) of
                  Inl f \<Rightarrow> Inl f
                | Inr (p, s1) \<Rightarrow>
                    if p = 0 then fast_alloc b k MallocOomPolicy s1 new' else Inr (p, s1))
          else fast_alloc b k MallocOomPolicy s new')"
  by (simp add: realloc_request_def Let_def)

lemma do_free_checked:
  assumes "ENABLE_PROTECTION b" and "ptr \<noteq> 0"
    and "GetDescriptor s (PageIdContaining b ptr) = Some sp"
    and "GetSize b s ptr = Inr osz"
    and "osz = ucast (obj_size (span_heap s sp)) * 8"
    and "osz \<noteq> 0"
  shows "do_free b s ptr =
     (if (ptr - start_address (span_heap s sp)) mod osz \<noteq> 0
      then (if CRASH_ON_CORRUPTION b then Inl Aborted
            else Inr (Log ''double/invalid free detected'' s))
      else deallocate b False
             (poison_escapes sp
                (sint (ucast ((ptr - start_address (span_heap s sp)) div osz) :: 32 word))
                ptr (ptr + osz) s)
             ptr 0)"
  using assms
  by (auto simp add: do_free_def do_free_with_size_class_def free_protection_def Let_def)

lemma do_free_live:
  assumes "ptr \<noteq> 0"
    and "ENABLE_PROTECTION b \<Longrightarrow>
           GetDescriptor s (PageIdContaining b ptr) = Some sp \<and> GetSize b s ptr = Inr osz
           \<and> osz = ucast (obj_size (span_heap s sp)) * 8 \<and> osz \<noteq> 0
           \<and> (ptr - start_address (span_heap s sp)) mod osz = 0"
  shows "do_free b s ptr =
           deallocate b False
             (if ENABLE_PROTECTION b
              then poison_escapes sp
                     (sint (ucast ((ptr - start_address (span_heap s sp)) div osz) :: 32 word))
                     ptr (ptr + osz) s
              else s)
             ptr 0"
proof (cases "ENABLE_PROTECTION b")
  case False
  then show ?thesis using assms(1)
    by (simp add: do_free_def do_free_with_size_class_def)
next
  case True
  from assms(2) [OF True]
  have d: "GetDescriptor s (PageIdContaining b ptr) = Some sp"
    and g: "GetSize b s ptr = Inr osz"
    and o: "osz = ucast (obj_size (span_heap s sp)) * 8" and nz: "osz \<noteq> 0"
    and m: "(ptr - start_address (span_heap s sp)) mod osz = 0"
    by blast+
  show ?thesis
    unfolding do_free_checked [OF True assms(1) d g o nz]
    by (simp only: m True simp_thms if_True if_False)
qed

lemma padded_size:
  fixes n :: size_t
  assumes "unat n < 2 ^ 62"
  shows "unat (n + 1) = unat n + 1"
proof -
  have "unat n + unat (1 :: size_t) < 2 ^ LENGTH(64)" using assms by simp
  then show ?thesis by (simp only: unat_add_lem [THEN iffD1] unat_1)
qed

lemma lower_bound_to_grow:
  fixes old :: size_t
  assumes "unat old < 2 ^ 62"
  shows "unat (old + min (old div 4) (- 1 - old)) = unat old + unat old div 4"
proof -
  have q: "unat (old div 4) = unat old div 4" by (simp add: unat_div)
  have m: "unat (- 1 - old) = 2 ^ 64 - 1 - unat old"
  proof -
    have "old \<le> - 1" by simp
    then have "unat (- 1 - old) = unat (- 1 :: size_t) - unat old" by (rule unat_sub)
    moreover have "unat (- 1 :: size_t) = 2 ^ 64 - 1"
      by (simp add: unsigned_minus_1_eq_mask mask_eq_exp_minus_1)
    ultimately show ?thesis by simp
  qed
  have "unat (old div 4) \<le> unat (- 1 - old)" using q m assms by simp
  then have "old div 4 \<le> - 1 - old" by (simp add: word_le_nat_alt)
  then have e: "min (old div 4) (- 1 - old) = old div 4" by (simp add: min_def)
  have "unat old + unat (old div 4) < 2 ^ LENGTH(64)" using q assms by simp
  then have "unat (old + old div 4) = unat old + unat (old div 4)"
    by (simp only: unat_add_lem [THEN iffD1])
  then show ?thesis using e q by simp
qed


text \<open>
  C7, as stated, fails under \<open>ENABLE_PROTECTION\<close>: the new size is padded by
  one byte before it is compared with the size of the old chunk. For the
  80-byte object at \<open>0x2050\<close> (\<open>GetSize\<close> 80, \<open>malloc_size\<close> 79) \<open>realloc\<close> to 80
  bytes allocates a block of class 6, copies 80 bytes and frees the old
  block.
\<close>

theorem realloc_same_size_moves_block:
  "GetSize ex_build ex_state 0x2050 = Inr 80
   \<and> TCMallocInternalMallocSize ex_build ex_state 0x2050 = Inr 79
   \<and> TCMallocInternalRealloc ex_build ex_backend ex_state 0x2050 80
       = Inr (0x4000, ex_state\<lparr>events := [CacheAllocate 6, Memcpy 0x4000 0x2050 80,
                                            CacheDeallocate 0x2050 5]\<rparr>)"
  by (simp add: TCMallocInternalRealloc_def do_realloc_def realloc_request_def fast_alloc_def
      cache_allocate_def do_free_def do_free_with_size_class_def free_protection_def
      deallocate_def FreeSmall_def poison_escapes_def TCMallocInternalMallocSize_def
      GetSize_def ex_backend_def ex_simps)

text \<open>
  C7, amended. \<open>realloc(old_ptr, new_size)\<close> with a non-null pointer and a
  nonzero size, where \<open>old = GetSize(old_ptr)\<close>, and where under
  \<open>ENABLE_PROTECTION\<close> both \<open>new_size\<close> and \<open>old\<close> are below \<open>2^62\<close>, so that no
  padded size wraps. Let \<open>new'\<close> be \<open>new_size + 1\<close> under \<open>ENABLE_PROTECTION\<close> and
  \<open>new_size\<close> otherwise. If \<open>new' <= old\<close> and \<open>old/2 <= new'\<close> the same pointer
  is returned and the state is unchanged. Otherwise a block is requested
  from \<open>fast_alloc\<close> (which adds its own padding byte): \<open>old + min(old/4,
  SIZE_MAX - old)\<close> bytes first, with null on failure, when \<open>new'\<close> lies
  between \<open>old\<close> and that bound (which is \<open>old + old/4\<close> under the bound on
  \<open>old\<close>), and \<open>new'\<close> bytes when that was not tried or gave null. When no
  block is obtained null is returned and the old block is kept. When one is
  obtained, \<open>min(old, new')\<close> bytes are copied from the old block and
  \<open>do_free(old_ptr)\<close> is run. For a block that is still live then (under
  \<open>ENABLE_PROTECTION\<close>: its page has a Span stamped with \<open>old\<close>, and \<open>old_ptr\<close>
  is the start of a slot) this poisons the escapes of its slot and hands the
  block to the cache of its class, or its pages to the page allocator.
\<close>

theorem realloc_policy:
  assumes "old_ptr \<noteq> 0" and "new_size \<noteq> 0" and "GetSize b s old_ptr = Inr old"
    and "ENABLE_PROTECTION b \<Longrightarrow> unat new_size < 2 ^ 62 \<and> unat old < 2 ^ 62"
  shows "TCMallocInternalRealloc b k s old_ptr new_size =
     (let new' = (if ENABLE_PROTECTION b then new_size + 1 else new_size)
      in if new' \<le> old \<and> old div 2 \<le> new' then Inr (old_ptr, s)
         else (case realloc_request b k s old new' of
                 Inl f \<Rightarrow> Inl f
               | Inr (p, s2) \<Rightarrow>
                   if p = 0 then Inr (0, s2)
                   else (case do_free b
                                 (s2\<lparr>events := events s2 @ [Memcpy p old_ptr (min old new')]\<rparr>)
                                 old_ptr of
                           Inl f \<Rightarrow> Inl f
                         | Inr s3 \<Rightarrow> Inr (p, s3))))
   \<and> (\<forall>new'. realloc_request b k s old new' =
         (if old < new' \<and> new' < old + min (old div 4) (- 1 - old)
          then (case fast_alloc b k NullOomPolicy s (old + min (old div 4) (- 1 - old)) of
                  Inl f \<Rightarrow> Inl f
                | Inr (p, s1) \<Rightarrow>
                    if p = 0 then fast_alloc b k MallocOomPolicy s1 new' else Inr (p, s1))
          else fast_alloc b k MallocOomPolicy s new'))
   \<and> unat (if ENABLE_PROTECTION b then new_size + 1 else new_size)
       = unat new_size + (if ENABLE_PROTECTION b then 1 else 0)
   \<and> (ENABLE_PROTECTION b
        \<longrightarrow> unat (old + min (old div 4) (- 1 - old)) = unat old + unat old div 4)
   \<and> (\<forall>s2 sp.
         (ENABLE_PROTECTION b \<longrightarrow>
            GetDescriptor s2 (PageIdContaining b old_ptr) = Some sp
            \<and> GetSize b s2 old_ptr = Inr old
            \<and> old = ucast (obj_size (span_heap s2 sp)) * 8 \<and> old \<noteq> 0
            \<and> (old_ptr - start_address (span_heap s2 sp)) mod old = 0)
         \<longrightarrow> do_free b s2 old_ptr =
               deallocate b False
                 (if ENABLE_PROTECTION b
                  then poison_escapes sp
                         (sint (ucast ((old_ptr - start_address (span_heap s2 sp)) div old)
                                 :: 32 word))
                         old_ptr (old_ptr + old) s2
                  else s2)
                 old_ptr 0)"
proof (intro conjI)
  have keep: "\<And>n :: size_t. (n \<le> old \<and> old div 2 \<le> n) = (\<not> (old < n \<or> n < old div 2))"
    by (auto simp add: not_less)
  have r: "TCMallocInternalRealloc b k s old_ptr new_size = do_realloc b k s old_ptr new_size"
    using assms by (simp add: TCMallocInternalRealloc_def)
  show "TCMallocInternalRealloc b k s old_ptr new_size =
     (let new' = (if ENABLE_PROTECTION b then new_size + 1 else new_size)
      in if new' \<le> old \<and> old div 2 \<le> new' then Inr (old_ptr, s)
         else (case realloc_request b k s old new' of
                 Inl f \<Rightarrow> Inl f
               | Inr (p, s2) \<Rightarrow>
                   if p = 0 then Inr (0, s2)
                   else (case do_free b
                                 (s2\<lparr>events := events s2 @ [Memcpy p old_ptr (min old new')]\<rparr>)
                                 old_ptr of
                           Inl f \<Rightarrow> Inl f
                         | Inr s3 \<Rightarrow> Inr (p, s3))))"
    unfolding r keep do_realloc_def if_less_min using assms(3)
    by (simp add: Let_def)
next
  show "\<forall>new'. realloc_request b k s old new' =
         (if old < new' \<and> new' < old + min (old div 4) (- 1 - old)
          then (case fast_alloc b k NullOomPolicy s (old + min (old div 4) (- 1 - old)) of
                  Inl f \<Rightarrow> Inl f
                | Inr (p, s1) \<Rightarrow>
                    if p = 0 then fast_alloc b k MallocOomPolicy s1 new' else Inr (p, s1))
          else fast_alloc b k MallocOomPolicy s new')"
    by (simp add: realloc_request_unfold)
next
  show "unat (if ENABLE_PROTECTION b then new_size + 1 else new_size)
       = unat new_size + (if ENABLE_PROTECTION b then 1 else 0)"
    using assms(4) by (simp add: padded_size)
next
  show "ENABLE_PROTECTION b
        \<longrightarrow> unat (old + min (old div 4) (- 1 - old)) = unat old + unat old div 4"
    using assms(4) by (simp add: lower_bound_to_grow)
next
  show "\<forall>s2 sp.
         (ENABLE_PROTECTION b \<longrightarrow>
            GetDescriptor s2 (PageIdContaining b old_ptr) = Some sp
            \<and> GetSize b s2 old_ptr = Inr old
            \<and> old = ucast (obj_size (span_heap s2 sp)) * 8 \<and> old \<noteq> 0
            \<and> (old_ptr - start_address (span_heap s2 sp)) mod old = 0)
         \<longrightarrow> do_free b s2 old_ptr =
               deallocate b False
                 (if ENABLE_PROTECTION b
                  then poison_escapes sp
                         (sint (ucast ((old_ptr - start_address (span_heap s2 sp)) div old)
                                 :: 32 word))
                         old_ptr (old_ptr + old) s2
                  else s2)
                 old_ptr 0"
  proof (intro allI impI)
    fix s2 sp
    assume "ENABLE_PROTECTION b \<longrightarrow>
            GetDescriptor s2 (PageIdContaining b old_ptr) = Some sp
            \<and> GetSize b s2 old_ptr = Inr old
            \<and> old = ucast (obj_size (span_heap s2 sp)) * 8 \<and> old \<noteq> 0
            \<and> (old_ptr - start_address (span_heap s2 sp)) mod old = 0"
    then have "ENABLE_PROTECTION b \<Longrightarrow>
            GetDescriptor s2 (PageIdContaining b old_ptr) = Some sp
            \<and> GetSize b s2 old_ptr = Inr old
            \<and> old = ucast (obj_size (span_heap s2 sp)) * 8 \<and> old \<noteq> 0
            \<and> (old_ptr - start_address (span_heap s2 sp)) mod old = 0"
      by (rule mp)
    with assms(1) show "do_free b s2 old_ptr =
               deallocate b False
                 (if ENABLE_PROTECTION b
                  then poison_escapes sp
                         (sint (ucast ((old_ptr - start_address (span_heap s2 sp)) div old)
                                 :: 32 word))
                         old_ptr (old_ptr + old) s2
                  else s2)
                 old_ptr 0"
      by (rule do_free_live)
  qed
qed

theorem realloc_policy_witness:
  "TCMallocInternalRealloc ex_build ex_backend ex_state 0x2050 60 = Inr (0x2050, ex_state)
   \<and> TCMallocInternalRealloc ex_build ex_backend ex_state 0x2050 90
       = Inr (0x4000, ex_state\<lparr>events := [CacheAllocate 6, Memcpy 0x4000 0x2050 80,
                                            CacheDeallocate 0x2050 5]\<rparr>)"
proof -
  let ?s2 = "ex_state\<lparr>events := [CacheAllocate 6, Memcpy 0x4000 0x2050 80]\<rparr>"
  have g: "GetSize ex_build ex_state 0x2050 = Inr 80"
    by (simp add: GetSize_def ex_simps)
  have p: "ENABLE_PROTECTION ex_build" by (simp add: ex_simps)
  have bd: "ENABLE_PROTECTION ex_build \<Longrightarrow> unat (60 :: size_t) < 2 ^ 62 \<and> unat (80 :: size_t) < 2 ^ 62"
    "ENABLE_PROTECTION ex_build \<Longrightarrow> unat (90 :: size_t) < 2 ^ 62 \<and> unat (80 :: size_t) < 2 ^ 62"
    by simp_all
  have a: "fast_alloc ex_build ex_backend NullOomPolicy ex_state 100
             = Inr (0x4000, ex_state\<lparr>events := [CacheAllocate 6]\<rparr>)"
    by (simp add: fast_alloc_def cache_allocate_def ex_backend_def ex_simps)
  have live: "GetDescriptor ?s2 (PageIdContaining ex_build 0x2050) = Some 0
              \<and> GetSize ex_build ?s2 0x2050 = Inr 80
              \<and> (80 :: size_t) = ucast (obj_size (span_heap ?s2 0)) * 8 \<and> (80 :: size_t) \<noteq> 0
              \<and> (0x2050 - start_address (span_heap ?s2 0)) mod (80 :: size_t) = 0"
    by (simp add: GetSize_def ex_simps)
  have st: "start_address (span_heap ex_state 0) = 0x2000" by (simp add: ex_simps)
  have de: "deallocate ex_build False (poison_escapes 0 1 0x2050 0x20A0 ?s2) 0x2050 0
              = Inr (ex_state\<lparr>events := [CacheAllocate 6, Memcpy 0x4000 0x2050 80,
                                       CacheDeallocate 0x2050 5]\<rparr>)"
    by (simp add: deallocate_def FreeSmall_def poison_escapes_def ex_simps)
  have n: "(0x2050 :: addr) \<noteq> 0" "(60 :: size_t) \<noteq> 0" "(90 :: size_t) \<noteq> 0" by simp_all
  note t1 = realloc_policy [of "0x2050" 60 ex_build ex_state 80 ex_backend, OF n(1) n(2) g bd(1)]
  note t2 = realloc_policy [of "0x2050" 90 ex_build ex_state 80 ex_backend, OF n(1) n(3) g bd(2)]
  have f: "do_free ex_build ?s2 0x2050
           = Inr (ex_state\<lparr>events := [CacheAllocate 6, Memcpy 0x4000 0x2050 80,
                                       CacheDeallocate 0x2050 5]\<rparr>)"
    using t2 [THEN conjunct2, THEN conjunct2, THEN conjunct2, THEN conjunct2,
              THEN spec, THEN spec, THEN mp, of ?s2 0] live
    by (simp add: p st de)
  show ?thesis
    using t1 t2 by (simp add: p a f)
qed

text \<open>
  The bound is needed: under \<open>ENABLE_PROTECTION\<close> the padded size
  \<open>SIZE_MAX + 1\<close> wraps to 0, and \<open>realloc(p, SIZE_MAX)\<close> on the 80-byte object
  returns a block of the smallest class, copies nothing and frees the old
  block.
\<close>

lemma realloc_size_max_wraps:
  "TCMallocInternalRealloc ex_build ex_backend ex_state 0x2050 0xFFFFFFFFFFFFFFFF
     = Inr (0x4000, ex_state\<lparr>events := [CacheAllocate 5, Memcpy 0x4000 0x2050 0,
                                          CacheDeallocate 0x2050 5]\<rparr>)"
  by (simp add: TCMallocInternalRealloc_def do_realloc_def realloc_request_def fast_alloc_def
      cache_allocate_def do_free_def do_free_with_size_class_def free_protection_def
      deallocate_def FreeSmall_def poison_escapes_def GetSize_def ex_backend_def ex_simps)

section \<open>The padding byte\<close>

lemma GetSize_stamp_span: "GetSize b (stamp_span sp no osz s) p = GetSize b s p"
  by (simp add: GetSize_def stamp_span_def bytes_in_span_def Let_def split: option.splits)

lemma nat_round_up:
  fixes m k :: nat
  shows "m \<le> max (m div 2 ^ k + (if 0 < m mod 2 ^ k then 1 else 0)) 1 * 2 ^ k"
proof -
  have d: "m div 2 ^ k * 2 ^ k + m mod 2 ^ k = m" by (rule div_mult_mod_eq)
  have r: "m mod 2 ^ k < 2 ^ k" by simp
  show ?thesis
  proof (cases "0 < m mod 2 ^ k")
    case True
    have "m \<le> m div 2 ^ k * 2 ^ k + 2 ^ k" using d r by linarith
    also have "\<dots> = (m div 2 ^ k + 1) * 2 ^ k" by simp
    also have "\<dots> \<le> max (m div 2 ^ k + 1) 1 * 2 ^ k" by simp
    finally show ?thesis using True by simp
  next
    case False
    then have "m = (m div 2 ^ k) * 2 ^ k" using d by simp
    moreover have "m div 2 ^ k * 2 ^ k \<le> max (m div 2 ^ k) 1 * 2 ^ k"
      by (rule mult_le_mono1) simp
    ultimately have "m \<le> max (m div 2 ^ k) 1 * 2 ^ k" by simp
    then show ?thesis using False by simp
  qed
qed

lemma nat_round_up_bound:
  fixes m k :: nat
  shows "max (m div 2 ^ k + (if 0 < m mod 2 ^ k then 1 else 0)) 1 * 2 ^ k \<le> m + 2 ^ k"
proof -
  have d: "m div 2 ^ k * 2 ^ k + m mod 2 ^ k = m" by (rule div_mult_mod_eq)
  have a: "m div 2 ^ k * 2 ^ k \<le> m" using d by linarith
  show ?thesis
  proof (cases "0 < m mod 2 ^ k")
    case True
    have "max (m div 2 ^ k + 1) 1 = m div 2 ^ k + 1" by simp
    then have "max (m div 2 ^ k + 1) 1 * 2 ^ k = m div 2 ^ k * 2 ^ k + 2 ^ k" by simp
    then show ?thesis using True a by simp
  next
    case False
    show ?thesis
    proof (cases "m div 2 ^ k = 0")
      case True
      then show ?thesis using False by simp
    next
      case F2: False
      have e: "max (m div 2 ^ k + (if 0 < m mod 2 ^ k then 1 else 0)) 1 = m div 2 ^ k"
        using False F2 by simp
      show ?thesis unfolding e using a by linarith
    qed
  qed
qed

lemma unat_max: "unat (max a b :: size_t) = max (unat a) (unat b)"
  by (simp add: max_def word_le_nat_alt)

lemma pages_round_up:
  fixes sz :: size_t
  assumes k: "k < 63" and sm: "unat sz < 2 ^ 62"
  shows "sz \<le> push_bit k (max (drop_bit k sz + (if take_bit k sz > 0 then 1 else 0)) 1)"
proof -
  let ?m = "unat sz"
  let ?np = "max (drop_bit k sz + (if take_bit k sz > 0 then 1 else 0)) (1 :: size_t)"
  have p2: "(2 :: nat) ^ k \<le> 2 ^ 62"
    by (rule power_increasing) (use k in simp_all)
  have q: "unat (drop_bit k sz) = ?m div 2 ^ k"
    unfolding unat_drop_bit_eq by (simp add: drop_bit_eq_div)
  have r: "(take_bit k sz > 0) = (0 < ?m mod 2 ^ k)"
  proof -
    have "(take_bit k sz > 0) = (0 < unat (take_bit k sz))"
      by (simp add: word_greater_zero_iff unat_gt_0)
    also have "unat (take_bit k sz) = take_bit k ?m" by (rule unsigned_take_bit_eq)
    also have "take_bit k ?m = ?m mod 2 ^ k" by (rule take_bit_eq_mod)
    finally show ?thesis .
  qed
  have c: "unat (if take_bit k sz > 0 then 1 else 0 :: size_t) = (if 0 < ?m mod 2 ^ k then 1 else 0)"
    using r by simp
  have qle: "?m div 2 ^ k \<le> ?m" by (rule div_le_dividend)
  have "unat (drop_bit k sz) + unat (if take_bit k sz > 0 then 1 else 0 :: size_t)
          \<le> ?m div 2 ^ k + 1"
    unfolding q c by simp
  also have "\<dots> \<le> ?m + 1" using qle by simp
  also have "\<dots> < 2 ^ LENGTH(64)" using sm by simp
  finally have "unat (drop_bit k sz) + unat (if take_bit k sz > 0 then 1 else 0 :: size_t)
          < 2 ^ LENGTH(64)" .
  then have s: "unat (drop_bit k sz + (if take_bit k sz > 0 then 1 else 0))
      = ?m div 2 ^ k + (if 0 < ?m mod 2 ^ k then 1 else 0)"
    using q c by (simp only: unat_add_lem [THEN iffD1])
  have np: "unat ?np = max (?m div 2 ^ k + (if 0 < ?m mod 2 ^ k then 1 else 0)) 1"
    by (simp only: unat_max s unat_1)
  have b: "unat ?np * 2 ^ k \<le> ?m + 2 ^ k" unfolding np by (rule nat_round_up_bound)
  have lt: "unat ?np * 2 ^ k < 2 ^ LENGTH(64)" using b sm p2 by simp
  have "unat (push_bit k ?np) = take_bit LENGTH(64) (push_bit k (unat ?np))"
    by (rule unsigned_push_bit_eq)
  also have "push_bit k (unat ?np) = unat ?np * 2 ^ k" by (rule push_bit_eq_mult)
  also have "take_bit LENGTH(64) (unat ?np * 2 ^ k) = unat ?np * 2 ^ k"
    using lt by (rule take_bit_nat_eq_self)
  finally have pb: "unat (push_bit k ?np) = unat ?np * 2 ^ k" .
  have "?m \<le> unat ?np * 2 ^ k" unfolding np by (rule nat_round_up)
  then show ?thesis unfolding word_le_nat_alt pb .
qed

lemma cache_allocate_size:
  assumes cache: "\<And>s cl p s'. Allocate k s cl = (p, s') \<Longrightarrow> p \<noteq> 0
                    \<Longrightarrow> GetSize b s' p = Inr (class_to_size b cl)"
    and ok: "cache_allocate b k pol s cl = Inr (p, s')" and p: "p \<noteq> 0"
  shows "GetSize b s' p = Inr (class_to_size b cl)"
proof -
  obtain p0 s0 where a: "Allocate k s cl = (p0, s0)" by (cases "Allocate k s cl")
  have "p0 \<noteq> 0"
  proof
    assume "p0 = 0"
    then have "p = 0" using ok a
      by (cases pol) (simp_all add: cache_allocate_def handle_oom_def)
    then show False using p by simp
  qed
  then have "p = p0 \<and> s' = s0" using ok a by (simp add: cache_allocate_def)
  then show ?thesis using cache [OF a \<open>p0 \<noteq> 0\<close>] by simp
qed

lemma word_pred_le:
  fixes n g :: size_t
  assumes "unat n < 2 ^ 62 - 1" and "n + 1 \<le> g"
  shows "n \<le> g - 1"
proof -
  have "unat n + unat (1 :: size_t) < 2 ^ LENGTH(64)" using assms(1) by simp
  then have n1: "unat (n + 1) = unat n + 1" by (simp only: unat_add_lem [THEN iffD1] unat_1)
  then have ge: "unat n + 1 \<le> unat g" using assms(2) by (simp add: word_le_nat_alt)
  then have "g \<noteq> 0" by (auto simp add: unat_eq_0)
  then have "unat (g - 1) = unat g - 1" by (simp add: unat_minus_one)
  then show ?thesis using ge by (simp add: word_le_nat_alt)
qed


lemma GetSize_frame:
  assumes "GetDescriptor s' = GetDescriptor s" and "sizeclass s' = sizeclass s"
    and "span_heap s' = span_heap s" and "PointerIsMine s' = PointerIsMine s"
    and "GetRequestedSize s' = GetRequestedSize s"
  shows "GetSize b s' p = GetSize b s p"
  unfolding GetSize_def assms by (rule refl)

lemma record_sample_guarded:
  assumes rs: "record_sample b s rq w cl obj sp alloc g = Inr (p, s')"
    and g: "g \<noteq> 0"
    and sc: "sizeclass s (PageIdContaining b g) = 0"
    and d: "GetDescriptor s (PageIdContaining b g) = Some sp"
    and mine: "PointerIsMine s g" and req: "GetRequestedSize s g = rq"
  shows "p = g \<and> GetSize b s' p = Inr rq"
  using assms
  by (auto simp add: record_sample_def Let_def GetSize_def stamp_span_def FreeSmallSlow_def
      split: if_splits)

lemma record_sample_span:
  assumes rs: "record_sample b s rq w cl obj sp alloc 0 = Inr (p, s')"
    and p: "p \<noteq> 0"
    and sc: "sizeclass s (PageIdContaining b (start_address (span_heap s sp))) = 0"
    and d: "GetDescriptor s (PageIdContaining b (start_address (span_heap s sp))) = Some sp"
    and mine: "\<not> PointerIsMine s (start_address (span_heap s sp))"
  shows "p = start_address (span_heap s sp) \<and> GetSize b s' p = Inr alloc"
  using assms
  by (auto simp add: record_sample_def Let_def GetSize_def stamp_span_def FreeSmallSlow_def
      split: if_splits)


lemma set_pages_one: "set_pages p 1 sp s = pagemap_Set (p + 0) sp s"
  by (simp add: set_pages_def)

lemma TrySampleGuardedAllocation_miss:
  assumes guardsampler: "\<And>s y s' p. ShouldSampleGuardedAllocation k s = (y, s')
                    \<Longrightarrow> GetSize b s' p = GetSize b s p"
    and guard_fail: "\<And>s n a s' p. GuardedAllocate k s n a = (0, s')
                    \<Longrightarrow> GetSize b s' p = GetSize b s p"
    and t: "TrySampleGuardedAllocation k s rq al np = (0, s1)"
  shows "GetSize b s1 p = GetSize b s p"
proof (cases "np = 1")
  case False
  then show ?thesis using t by (simp add: TrySampleGuardedAllocation_def)
next
  case True
  obtain y sa where sg: "ShouldSampleGuardedAllocation k s = (y, sa)"
    by (cases "ShouldSampleGuardedAllocation k s")
  have a: "GetSize b sa p = GetSize b s p" using sg by (rule guardsampler)
  show ?thesis
  proof (cases y)
    case False
    then have "s1 = sa" using t True sg by (simp add: TrySampleGuardedAllocation_def)
    then show ?thesis using a by simp
  next
    case y: True
    then have "GuardedAllocate k sa rq al = (0, s1)"
      using t True sg by (simp add: TrySampleGuardedAllocation_def)
    then have "GetSize b s1 p = GetSize b sa p" by (rule guard_fail)
    then show ?thesis using a by simp
  qed
qed

lemma TrySampleGuardedAllocation_hit:
  assumes guard_ok: "\<And>s n a g s'. GuardedAllocate k s n a = (g, s') \<Longrightarrow> g \<noteq> 0
                    \<Longrightarrow> sizeclass s' (PageIdContaining b g) = 0 \<and> PointerIsMine s' g
                        \<and> GetRequestedSize s' g = n"
    and t: "TrySampleGuardedAllocation k s rq al np = (g, s1)" and g: "g \<noteq> 0"
  shows "np = 1 \<and> sizeclass s1 (PageIdContaining b g) = 0 \<and> PointerIsMine s1 g
         \<and> GetRequestedSize s1 g = rq"
proof -
  have np: "np = 1" using t g by (auto simp add: TrySampleGuardedAllocation_def split: if_splits)
  obtain y sa where sg: "ShouldSampleGuardedAllocation k s = (y, sa)"
    by (cases "ShouldSampleGuardedAllocation k s")
  have y using t g np sg by (auto simp add: TrySampleGuardedAllocation_def split: if_splits)
  then have "GuardedAllocate k sa rq al = (g, s1)"
    using t np sg by (simp add: TrySampleGuardedAllocation_def)
  from guard_ok [OF this g] np show ?thesis by simp
qed

lemma SampleifyAllocation_small_size:
  assumes guardsampler: "\<And>s y s' p. ShouldSampleGuardedAllocation k s = (y, s')
                    \<Longrightarrow> GetSize b s' p = GetSize b s p"
    and guard_ok: "\<And>s n a g s'. GuardedAllocate k s n a = (g, s') \<Longrightarrow> g \<noteq> 0
                    \<Longrightarrow> sizeclass s' (PageIdContaining b g) = 0 \<and> PointerIsMine s' g
                        \<and> GetRequestedSize s' g = n"
    and guard_fail: "\<And>s n a s' p. GuardedAllocate k s n a = (0, s')
                    \<Longrightarrow> GetSize b s' p = GetSize b s p"
    and spannew: "\<And>s pg n sp s'. Span_New k s pg n = (sp, s')
                    \<Longrightarrow> sizeclass s' = sizeclass s \<and> PointerIsMine s' = PointerIsMine s
                        \<and> GetRequestedSize s' = GetRequestedSize s"
    and new_ok: "\<And>s n sp s'. New k s n = (Some sp, s')
                    \<Longrightarrow> GetDescriptor s' (PageIdContaining b (start_address (span_heap s' sp)))
                          = Some sp
                        \<and> sizeclass s' (PageIdContaining b (start_address (span_heap s' sp))) = 0
                        \<and> \<not> PointerIsMine s' (start_address (span_heap s' sp))"
    and new_fail: "\<And>s n s' p. New k s n = (None, s') \<Longrightarrow> GetSize b s' p = GetSize b s p"
    and obj: "GetSize b s obj = Inr (class_to_size b cl)"
    and ok: "SampleifyAllocation b k s rq w cl obj None = Inr (p, s')" and p: "p \<noteq> 0"
  shows "GetSize b s' p = Inr rq \<or> GetSize b s' p = Inr (class_to_size b cl)"
proof -
  let ?alloc = "class_to_size b cl"
  let ?np = "BytesToLengthCeil b ?alloc"
  let ?obj = "if push_bit (kPageShift b) (class_to_pages b cl) div ?alloc \<noteq> 1 then 0 else obj"
  have cl: "cl \<noteq> 0"
    using ok by (auto simp add: SampleifyAllocation_def split: if_splits)
  obtain g s1 where t: "TrySampleGuardedAllocation k s rq 0 ?np = (g, s1)"
    by (cases "TrySampleGuardedAllocation k s rq 0 ?np")
  show ?thesis
  proof (cases "g = 0")
    case True
    have g1: "GetSize b s1 obj = Inr ?alloc"
      using TrySampleGuardedAllocation_miss [OF guardsampler guard_fail t [unfolded True]] obj
      by simp
    obtain r s2 where n: "New k s1 ?np = (r, s2)" by (cases "New k s1 ?np")
    show ?thesis
    proof (cases r)
      case None
      then have "p = obj \<and> s' = s2"
        using ok cl t True n by (auto simp add: SampleifyAllocation_def Let_def split: if_splits)
      moreover have "GetSize b s2 obj = GetSize b s1 obj"
        using n [unfolded None] by (rule new_fail)
      ultimately show ?thesis using g1 by simp
    next
      case (Some sp)
      have rs: "record_sample b s2 rq w cl ?obj sp ?alloc 0 = Inr (p, s')"
        using ok cl t True n Some
        by (auto simp add: SampleifyAllocation_def Let_def split: if_splits)
      from new_ok [OF n [unfolded Some]]
      have "p = start_address (span_heap s2 sp) \<and> GetSize b s' p = Inr ?alloc"
        using rs p by (intro record_sample_span) simp_all
      then show ?thesis by blast
    qed
  next
    case False
    from TrySampleGuardedAllocation_hit [OF guard_ok t False]
    have np: "?np = 1" and sc: "sizeclass s1 (PageIdContaining b g) = 0"
      and mine: "PointerIsMine s1 g" and req: "GetRequestedSize s1 g = rq"
      by simp_all
    obtain sp s2 where sn: "Span_New k s1 (PageIdContaining b g) ?np = (sp, s2)"
      by (cases "Span_New k s1 (PageIdContaining b g) ?np")
    let ?s4 = "stamp_span sp
                 (ucast (push_bit (kPageShift b) (class_to_pages b cl) div ?alloc))
                 (ucast (?alloc div 8))
                 (set_pages (PageIdContaining b g) ?np sp s2)"
    have rs: "record_sample b ?s4 rq w cl ?obj sp ?alloc g = Inr (p, s')"
      using ok cl t False sn
      by (auto simp add: SampleifyAllocation_def Let_def split: if_splits)
    from spannew [OF sn]
    have f: "sizeclass s2 = sizeclass s1" "PointerIsMine s2 = PointerIsMine s1"
      "GetRequestedSize s2 = GetRequestedSize s1" by simp_all
    have "p = g \<and> GetSize b s' p = Inr rq"
      using rs False
    proof (rule record_sample_guarded)
      show "sizeclass ?s4 (PageIdContaining b g) = 0"
        using sc f np by (simp add: stamp_span_def set_pages_one pagemap_Set_def)
      show "GetDescriptor ?s4 (PageIdContaining b g) = Some sp"
        using np by (simp add: stamp_span_def set_pages_one pagemap_Set_def)
      show "PointerIsMine ?s4 g"
        using mine f np by (simp add: stamp_span_def set_pages_one pagemap_Set_def)
      show "GetRequestedSize ?s4 g = rq"
        using req f np by (simp add: stamp_span_def set_pages_one pagemap_Set_def)
    qed
    then show ?thesis by blast
  qed
qed

lemma SampleifyAllocation_pages_size:
  assumes ok: "SampleifyAllocation b k s rq w 0 0 (Some sp) = Inr (p, s')" and p: "p \<noteq> 0"
    and sc: "sizeclass s (PageIdContaining b (start_address (span_heap s sp))) = 0"
    and d: "GetDescriptor s (PageIdContaining b (start_address (span_heap s sp))) = Some sp"
    and mine: "\<not> PointerIsMine s (start_address (span_heap s sp))"
  shows "p = start_address (span_heap s sp)
         \<and> GetSize b s' p = Inr (bytes_in_span b (span_heap s sp))"
proof -
  have "record_sample b s rq w 0 0 sp (bytes_in_span b (span_heap s sp)) 0 = Inr (p, s')"
    using ok by (simp add: SampleifyAllocation_def)
  then show ?thesis using p sc d mine by (rule record_sample_span)
qed


lemma AllocSmall_size:
  assumes cache: "\<And>s cl p s'. Allocate k s cl = (p, s') \<Longrightarrow> p \<noteq> 0
                    \<Longrightarrow> GetSize b s' p = Inr (class_to_size b cl)"
    and sampler: "\<And>s sz w s'. ShouldSampleAllocation k s sz = (w, s')
                    \<Longrightarrow> GetDescriptor s' = GetDescriptor s \<and> sizeclass s' = sizeclass s
                        \<and> span_heap s' = span_heap s \<and> PointerIsMine s' = PointerIsMine s
                        \<and> GetRequestedSize s' = GetRequestedSize s"
    and guardsampler: "\<And>s y s' p. ShouldSampleGuardedAllocation k s = (y, s')
                    \<Longrightarrow> GetSize b s' p = GetSize b s p"
    and guard_ok: "\<And>s n a g s'. GuardedAllocate k s n a = (g, s') \<Longrightarrow> g \<noteq> 0
                    \<Longrightarrow> sizeclass s' (PageIdContaining b g) = 0 \<and> PointerIsMine s' g
                        \<and> GetRequestedSize s' g = n"
    and guard_fail: "\<And>s n a s' p. GuardedAllocate k s n a = (0, s')
                    \<Longrightarrow> GetSize b s' p = GetSize b s p"
    and spannew: "\<And>s pg n sp s'. Span_New k s pg n = (sp, s')
                    \<Longrightarrow> sizeclass s' = sizeclass s \<and> PointerIsMine s' = PointerIsMine s
                        \<and> GetRequestedSize s' = GetRequestedSize s"
    and new_ok: "\<And>s n sp s'. New k s n = (Some sp, s')
                    \<Longrightarrow> GetDescriptor s' (PageIdContaining b (start_address (span_heap s' sp)))
                          = Some sp
                        \<and> sizeclass s' (PageIdContaining b (start_address (span_heap s' sp))) = 0
                        \<and> \<not> PointerIsMine s' (start_address (span_heap s' sp))"
    and new_fail: "\<And>s n s' p. New k s n = (None, s') \<Longrightarrow> GetSize b s' p = GetSize b s p"
    and cl: "sz \<le> class_to_size b cl"
    and ok: "AllocSmall b k pol s cl sz = Inr (p, s')" and p: "p \<noteq> 0"
  shows "\<exists>g. GetSize b s' p = Inr g \<and> sz \<le> g"
proof -
  obtain result s1 where c: "cache_allocate b k pol s cl = Inr (result, s1)"
    using ok by (cases "cache_allocate b k pol s cl") (auto simp add: AllocSmall_def)
  have r: "result \<noteq> 0" using ok c p by (auto simp add: AllocSmall_def)
  have g1: "GetSize b s1 result = Inr (class_to_size b cl)"
    using cache c r by (rule cache_allocate_size)
  obtain w s2 where sa: "ShouldSampleAllocation k s1 sz = (w, s2)"
    by (cases "ShouldSampleAllocation k s1 sz")
  have "GetSize b s2 result = GetSize b s1 result"
    using sampler [OF sa] by (intro GetSize_frame) simp_all
  then have g2: "GetSize b s2 result = Inr (class_to_size b cl)" using g1 by simp
  show ?thesis
  proof (cases "w = 0")
    case True
    then have "p = result \<and> s' = s2" using ok c r sa by (simp add: AllocSmall_def)
    then show ?thesis using g2 cl by simp
  next
    case False
    then have "SampleifyAllocation b k s2 sz w cl result None = Inr (p, s')"
      using ok c r sa by (simp add: AllocSmall_def)
    with guardsampler guard_ok guard_fail spannew new_ok new_fail g2
    have "GetSize b s' p = Inr sz \<or> GetSize b s' p = Inr (class_to_size b cl)"
      using p by (rule SampleifyAllocation_small_size)
    then show ?thesis using cl by auto
  qed
qed

lemma do_malloc_pages_size:
  assumes sampler: "\<And>s sz w s'. ShouldSampleAllocation k s sz = (w, s')
                    \<Longrightarrow> GetDescriptor s' = GetDescriptor s \<and> sizeclass s' = sizeclass s
                        \<and> span_heap s' = span_heap s \<and> PointerIsMine s' = PointerIsMine s
                        \<and> GetRequestedSize s' = GetRequestedSize s"
    and pages_ok: "\<And>s n sp s'. NewAligned k s n = (Some sp, s')
                    \<Longrightarrow> GetDescriptor s' (PageIdContaining b (start_address (span_heap s' sp)))
                          = Some sp
                        \<and> sizeclass s' (PageIdContaining b (start_address (span_heap s' sp))) = 0
                        \<and> \<not> PointerIsMine s' (start_address (span_heap s' sp))
                        \<and> num_pages (span_heap s' sp) = n
                        \<and> sampled_allocated_size (span_heap s' sp) = None"
    and shift: "kPageShift b < 63" and small: "unat sz < 2 ^ 62"
    and ok: "do_malloc_pages b k s sz no = Inr (p, s')" and p: "p \<noteq> 0"
  shows "\<exists>g. GetSize b s' p = Inr g \<and> sz \<le> g"
proof -
  let ?np = "max (BytesToLengthCeil b sz) 1"
  obtain r s1 where n: "NewAligned k s ?np = (r, s1)" by (cases "NewAligned k s ?np")
  obtain sp where sp: "r = Some sp"
    using ok n p by (cases r) (auto simp add: do_malloc_pages_def Let_def)
  let ?result = "start_address (span_heap s1 sp)"
  obtain w s2 where sa: "ShouldSampleAllocation k s1 sz = (w, s2)"
    by (cases "ShouldSampleAllocation k s1 sz")
  from sampler [OF sa]
  have fr: "GetDescriptor s2 = GetDescriptor s1" "sizeclass s2 = sizeclass s1"
    "span_heap s2 = span_heap s1" "PointerIsMine s2 = PointerIsMine s1" by simp_all
  from pages_ok [OF n [unfolded sp]]
  have d: "GetDescriptor s2 (PageIdContaining b ?result) = Some sp"
    and sc: "sizeclass s2 (PageIdContaining b ?result) = 0"
    and mine: "\<not> PointerIsMine s2 ?result"
    and np: "num_pages (span_heap s2 sp) = ?np"
    and un: "sampled_allocated_size (span_heap s2 sp) = None"
    by (simp_all add: fr)
  have le: "sz \<le> push_bit (kPageShift b) ?np"
    unfolding BytesToLengthCeil_def using shift small by (rule pages_round_up)
  have bs: "bytes_in_span b (span_heap s2 sp) = push_bit (kPageShift b) ?np"
    using np by (simp add: bytes_in_span_def)
  have "\<exists>s3. GetSize b s3 ?result = Inr (push_bit (kPageShift b) ?np) \<and> p = ?result
            \<and> s' = stamp_span sp no (ucast (push_bit (kPageShift b) ?np div 8)) s3"
  proof (cases "w = 0")
    case True
    have pe: "p = ?result" using ok n sp sa True
      by (auto simp add: do_malloc_pages_def Let_def split: sum.splits)
    then have "?result \<noteq> 0" using p by simp
    then have "GetSize b s2 ?result = Inr (push_bit (kPageShift b) ?np)"
      using d sc un bs by (simp add: GetSize_def Let_def)
    then show ?thesis using ok n sp sa True
      by (auto simp add: do_malloc_pages_def Let_def)
  next
    case False
    obtain r' s3 where sf: "SampleifyAllocation b k s2 sz w 0 0 (Some sp) = Inr (r', s3)"
      using ok n sp sa False
      by (cases "SampleifyAllocation b k s2 sz w 0 0 (Some sp)")
         (auto simp add: do_malloc_pages_def Let_def)
    have eq: "?result = r'" using ok n sp sa False sf
      by (auto simp add: do_malloc_pages_def Let_def split: if_splits)
    have pe: "p = ?result" using ok n sp sa False sf eq
      by (auto simp add: do_malloc_pages_def Let_def split: sum.splits)
    have r0: "r' \<noteq> 0" using pe eq p by simp
    have "r' = start_address (span_heap s2 sp)
          \<and> GetSize b s3 r' = Inr (bytes_in_span b (span_heap s2 sp))"
      using sf r0 sc d mine by (intro SampleifyAllocation_pages_size) (simp_all add: fr)
    then have "GetSize b s3 ?result = Inr (push_bit (kPageShift b) ?np)"
      using eq bs by auto
    then show ?thesis using ok n sp sa False sf eq
      by (auto simp add: do_malloc_pages_def Let_def)
  qed
  then show ?thesis using le by (auto simp add: GetSize_stamp_span)
qed

lemma slow_alloc_size:
  assumes sizemap: "\<And>sz cl. GetSizeClass b sz = Some cl \<Longrightarrow> sz \<le> class_to_size b cl"
    and cache: "\<And>s cl p s'. Allocate k s cl = (p, s') \<Longrightarrow> p \<noteq> 0
                    \<Longrightarrow> GetSize b s' p = Inr (class_to_size b cl)"
    and sampler: "\<And>s sz w s'. ShouldSampleAllocation k s sz = (w, s')
                    \<Longrightarrow> GetDescriptor s' = GetDescriptor s \<and> sizeclass s' = sizeclass s
                        \<and> span_heap s' = span_heap s \<and> PointerIsMine s' = PointerIsMine s
                        \<and> GetRequestedSize s' = GetRequestedSize s"
    and guardsampler: "\<And>s y s' p. ShouldSampleGuardedAllocation k s = (y, s')
                    \<Longrightarrow> GetSize b s' p = GetSize b s p"
    and guard_ok: "\<And>s n a g s'. GuardedAllocate k s n a = (g, s') \<Longrightarrow> g \<noteq> 0
                    \<Longrightarrow> sizeclass s' (PageIdContaining b g) = 0 \<and> PointerIsMine s' g
                        \<and> GetRequestedSize s' g = n"
    and guard_fail: "\<And>s n a s' p. GuardedAllocate k s n a = (0, s')
                    \<Longrightarrow> GetSize b s' p = GetSize b s p"
    and spannew: "\<And>s pg n sp s'. Span_New k s pg n = (sp, s')
                    \<Longrightarrow> sizeclass s' = sizeclass s \<and> PointerIsMine s' = PointerIsMine s
                        \<and> GetRequestedSize s' = GetRequestedSize s"
    and new_ok: "\<And>s n sp s'. New k s n = (Some sp, s')
                    \<Longrightarrow> GetDescriptor s' (PageIdContaining b (start_address (span_heap s' sp)))
                          = Some sp
                        \<and> sizeclass s' (PageIdContaining b (start_address (span_heap s' sp))) = 0
                        \<and> \<not> PointerIsMine s' (start_address (span_heap s' sp))"
    and new_fail: "\<And>s n s' p. New k s n = (None, s') \<Longrightarrow> GetSize b s' p = GetSize b s p"
    and pages_ok: "\<And>s n sp s'. NewAligned k s n = (Some sp, s')
                    \<Longrightarrow> GetDescriptor s' (PageIdContaining b (start_address (span_heap s' sp)))
                          = Some sp
                        \<and> sizeclass s' (PageIdContaining b (start_address (span_heap s' sp))) = 0
                        \<and> \<not> PointerIsMine s' (start_address (span_heap s' sp))
                        \<and> num_pages (span_heap s' sp) = n
                        \<and> sampled_allocated_size (span_heap s' sp) = None"
    and shift: "kPageShift b < 63" and small: "unat sz < 2 ^ 62"
    and ok: "slow_alloc b k pol s sz = Inr (p, s')" and p: "p \<noteq> 0"
  shows "\<exists>g. GetSize b s' p = Inr g \<and> sz \<le> g"
proof (cases "GetSizeClass b sz")
  case (Some cl)
  then have a: "AllocSmall b k pol s cl sz = Inr (p, s')" using ok by (simp add: slow_alloc_def)
  show ?thesis
    using cache sampler guardsampler guard_ok guard_fail spannew new_ok new_fail
      sizemap [OF Some] a p
    by (rule AllocSmall_size)
next
  case None
  obtain p1 s1 where d: "do_malloc_pages b k s sz 1 = Inr (p1, s1)"
    using ok None by (cases "do_malloc_pages b k s sz 1") (auto simp add: slow_alloc_def)
  have "p1 \<noteq> 0"
  proof
    assume "p1 = 0"
    then have "p = 0" using ok None d
      by (cases pol) (simp_all add: slow_alloc_def handle_oom_def)
    then show False using p by simp
  qed
  moreover from this have "p = p1 \<and> s' = s1" using ok None d by (simp add: slow_alloc_def)
  ultimately show ?thesis
    using do_malloc_pages_size [OF sampler pages_ok shift small d] by simp
qed

text \<open>
  C8. Under \<open>ENABLE_PROTECTION\<close> an allocation of \<open>n\<close> bytes looks up the size
  class of \<open>n + 1\<close> bytes, and \<open>malloc_size\<close> of the pointer it returns is the
  size of the chunk less one, which is at least \<open>n\<close>, on the fast path, the
  slow path, the page path and the sampled paths through
  \<open>SampleifyAllocation\<close>. The size map, the cache, the sampler, the guarded
  page allocator, \<open>Span::New\<close> and the page allocator are outside tcmalloc.cc;
  the theorem holds for all that keep their contracts:
  \<^item> a size class is at least as large as the size it is chosen for;
  \<^item> an object handed out by the cache lies on a page registered with its
    class;
  \<^item> the decisions of the sampler leave the page map, the spans and the
    guarded page allocator as they are;
  \<^item> a guarded allocation lies on a page without size class, is owned by the
    guarded page allocator and is remembered with the size asked for; a
    failed one changes no size;
  \<^item> \<open>Span::New\<close> leaves the size classes and the guarded page allocator as
    they are;
  \<^item> a span of the page allocator is entered in the page map at its first
    page, without size class and outside the guarded region, and one from
    \<open>NewAligned\<close> has the pages asked for and is not sampled; a failed \<open>New\<close>
    changes no size.

  The bound on \<open>n\<close> (far above \<open>kMaxSize\<close>) keeps the padding and the rounding
  to pages from wrapping.
\<close>

theorem padded_alloc_malloc_size:
  assumes prot: "ENABLE_PROTECTION b"
    and shift: "kPageShift b < 63"
    and small: "unat n < 2 ^ 62 - 1"
    and sizemap: "\<And>sz cl. GetSizeClass b sz = Some cl \<Longrightarrow> sz \<le> class_to_size b cl"
    and cache: "\<And>s cl p s'. Allocate k s cl = (p, s') \<Longrightarrow> p \<noteq> 0
                    \<Longrightarrow> GetSize b s' p = Inr (class_to_size b cl)"
    and sampler: "\<And>s sz w s'. ShouldSampleAllocation k s sz = (w, s')
                    \<Longrightarrow> GetDescriptor s' = GetDescriptor s \<and> sizeclass s' = sizeclass s
                        \<and> span_heap s' = span_heap s \<and> PointerIsMine s' = PointerIsMine s
                        \<and> GetRequestedSize s' = GetRequestedSize s"
    and guardsampler: "\<And>s y s' p. ShouldSampleGuardedAllocation k s = (y, s')
                    \<Longrightarrow> GetSize b s' p = GetSize b s p"
    and guard_ok: "\<And>s n a g s'. GuardedAllocate k s n a = (g, s') \<Longrightarrow> g \<noteq> 0
                    \<Longrightarrow> sizeclass s' (PageIdContaining b g) = 0 \<and> PointerIsMine s' g
                        \<and> GetRequestedSize s' g = n"
    and guard_fail: "\<And>s n a s' p. GuardedAllocate k s n a = (0, s')
                    \<Longrightarrow> GetSize b s' p = GetSize b s p"
    and spannew: "\<And>s pg n sp s'. Span_New k s pg n = (sp, s')
                    \<Longrightarrow> sizeclass s' = sizeclass s \<and> PointerIsMine s' = PointerIsMine s
                        \<and> GetRequestedSize s' = GetRequestedSize s"
    and new_ok: "\<And>s n sp s'. New k s n = (Some sp, s')
                    \<Longrightarrow> GetDescriptor s' (PageIdContaining b (start_address (span_heap s' sp)))
                          = Some sp
                        \<and> sizeclass s' (PageIdContaining b (start_address (span_heap s' sp))) = 0
                        \<and> \<not> PointerIsMine s' (start_address (span_heap s' sp))"
    and new_fail: "\<And>s n s' p. New k s n = (None, s') \<Longrightarrow> GetSize b s' p = GetSize b s p"
    and pages_ok: "\<And>s n sp s'. NewAligned k s n = (Some sp, s')
                    \<Longrightarrow> GetDescriptor s' (PageIdContaining b (start_address (span_heap s' sp)))
                          = Some sp
                        \<and> sizeclass s' (PageIdContaining b (start_address (span_heap s' sp))) = 0
                        \<and> \<not> PointerIsMine s' (start_address (span_heap s' sp))
                        \<and> num_pages (span_heap s' sp) = n
                        \<and> sampled_allocated_size (span_heap s' sp) = None"
    and ok: "fast_alloc b k pol s n = Inr (p, s')" and p: "p \<noteq> 0"
  shows "fast_alloc b k pol s n =
           (case GetSizeClass b (n + 1) of
              None \<Rightarrow> slow_alloc b k pol s (n + 1)
            | Some cl \<Rightarrow>
                (case TryRecordAllocationFast k s (n + 1) of
                   (fast, s1) \<Rightarrow> if fast then cache_allocate b k pol s1 cl
                                 else slow_alloc b k pol s1 (n + 1)))
         \<and> (\<exists>g. GetSize b s' p = Inr g \<and> n + 1 \<le> g
                \<and> TCMallocInternalMallocSize b s' p = Inr (g - 1) \<and> n \<le> g - 1)"
proof
  show f: "fast_alloc b k pol s n =
           (case GetSizeClass b (n + 1) of
              None \<Rightarrow> slow_alloc b k pol s (n + 1)
            | Some cl \<Rightarrow>
                (case TryRecordAllocationFast k s (n + 1) of
                   (fast, s1) \<Rightarrow> if fast then cache_allocate b k pol s1 cl
                                 else slow_alloc b k pol s1 (n + 1)))"
    using prot by (simp add: fast_alloc_def Let_def split: option.splits prod.splits)
  have "unat n + unat (1 :: size_t) < 2 ^ LENGTH(64)" using small by simp
  then have "unat (n + 1) = unat n + 1" by (simp only: unat_add_lem [THEN iffD1] unat_1)
  then have sm: "unat (n + 1) < 2 ^ 62" using small by simp
  have slow: "\<exists>g. GetSize b s' p = Inr g \<and> n + 1 \<le> g"
    if "slow_alloc b k pol s0 (n + 1) = Inr (p, s')" for s0
    using sizemap cache sampler guardsampler guard_ok guard_fail spannew new_ok new_fail
      pages_ok shift sm that p
    by (rule slow_alloc_size)
  have "\<exists>g. GetSize b s' p = Inr g \<and> n + 1 \<le> g"
  proof (cases "GetSizeClass b (n + 1)")
    case None
    then have "slow_alloc b k pol s (n + 1) = Inr (p, s')" using ok f by simp
    then show ?thesis by (rule slow)
  next
    case (Some cl)
    obtain fast s1 where t: "TryRecordAllocationFast k s (n + 1) = (fast, s1)"
      by (cases "TryRecordAllocationFast k s (n + 1)")
    show ?thesis
    proof (cases fast)
      case True
      then have c: "cache_allocate b k pol s1 cl = Inr (p, s')" using ok f Some t by simp
      have "GetSize b s' p = Inr (class_to_size b cl)"
        using cache c p by (rule cache_allocate_size)
      then show ?thesis using sizemap [OF Some] by simp
    next
      case False
      then have "slow_alloc b k pol s1 (n + 1) = Inr (p, s')" using ok f Some t by simp
      then show ?thesis by (rule slow)
    qed
  qed
  then obtain g where g: "GetSize b s' p = Inr g" "n + 1 \<le> g" by blast
  have "n \<le> g - 1" using small g(2) by (rule word_pred_le)
  then show "\<exists>g. GetSize b s' p = Inr g \<and> n + 1 \<le> g
                \<and> TCMallocInternalMallocSize b s' p = Inr (g - 1) \<and> n \<le> g - 1"
    using g by (simp add: TCMallocInternalMallocSize_def)
qed

theorem padded_alloc_malloc_size_witness:
  "(\<exists>s'. fast_alloc ex_build ex_sampling_backend MallocOomPolicy ex_state 100 = Inr (0x6000, s')
         \<and> GetSize ex_build s' 0x6000 = Inr 128
         \<and> TCMallocInternalMallocSize ex_build s' 0x6000 = Inr 127)
   \<and> (\<exists>s'. fast_alloc ex_build ex_guarded_backend MallocOomPolicy ex_state 100 = Inr (0x8000, s')
         \<and> GetSize ex_build s' 0x8000 = Inr 101
         \<and> TCMallocInternalMallocSize ex_build s' 0x8000 = Inr 100)
   \<and> (\<exists>s'. fast_alloc ex_build ex_sampling_backend MallocOomPolicy ex_state 10000
               = Inr (0x6000, s')
         \<and> GetSize ex_build s' 0x6000 = Inr 16384
         \<and> TCMallocInternalMallocSize ex_build s' 0x6000 = Inr 16383)"
proof -
  have prot: "ENABLE_PROTECTION ex_build" and shift: "kPageShift ex_build < 63"
    by (simp_all add: ex_build_def)
  have sizemap: "\<And>sz cl. GetSizeClass ex_build sz = Some cl \<Longrightarrow> sz \<le> class_to_size ex_build cl"
    by (auto simp add: ex_build_def split: if_splits)
  have cache: "\<And>s cl p s'. Allocate ex_sampling_backend s cl = (p, s') \<Longrightarrow> p \<noteq> 0
                 \<Longrightarrow> GetSize ex_build s' p = Inr (class_to_size ex_build cl)"
    "\<And>s cl p s'. Allocate ex_guarded_backend s cl = (p, s') \<Longrightarrow> p \<noteq> 0
                 \<Longrightarrow> GetSize ex_build s' p = Inr (class_to_size ex_build cl)"
    by (auto simp add: ex_sampling_backend_def ex_guarded_backend_def GetSize_def
        PageIdContaining_def ex_build_def split: if_splits)
  have sampler: "\<And>s sz w s'. ShouldSampleAllocation ex_sampling_backend s sz = (w, s')
                    \<Longrightarrow> GetDescriptor s' = GetDescriptor s \<and> sizeclass s' = sizeclass s
                        \<and> span_heap s' = span_heap s \<and> PointerIsMine s' = PointerIsMine s
                        \<and> GetRequestedSize s' = GetRequestedSize s"
    "\<And>s sz w s'. ShouldSampleAllocation ex_guarded_backend s sz = (w, s')
                    \<Longrightarrow> GetDescriptor s' = GetDescriptor s \<and> sizeclass s' = sizeclass s
                        \<and> span_heap s' = span_heap s \<and> PointerIsMine s' = PointerIsMine s
                        \<and> GetRequestedSize s' = GetRequestedSize s"
    by (auto simp add: ex_sampling_backend_def ex_guarded_backend_def)
  have guardsampler:
    "\<And>s y s' p. ShouldSampleGuardedAllocation ex_sampling_backend s = (y, s')
                    \<Longrightarrow> GetSize ex_build s' p = GetSize ex_build s p"
    "\<And>s y s' p. ShouldSampleGuardedAllocation ex_guarded_backend s = (y, s')
                    \<Longrightarrow> GetSize ex_build s' p = GetSize ex_build s p"
    by (auto simp add: ex_sampling_backend_def ex_guarded_backend_def)
  have guard_ok:
    "\<And>s n a g s'. GuardedAllocate ex_sampling_backend s n a = (g, s') \<Longrightarrow> g \<noteq> 0
        \<Longrightarrow> sizeclass s' (PageIdContaining ex_build g) = 0 \<and> PointerIsMine s' g
            \<and> GetRequestedSize s' g = n"
    "\<And>s n a g s'. GuardedAllocate ex_guarded_backend s n a = (g, s') \<Longrightarrow> g \<noteq> 0
        \<Longrightarrow> sizeclass s' (PageIdContaining ex_build g) = 0 \<and> PointerIsMine s' g
            \<and> GetRequestedSize s' g = n"
    by (auto simp add: ex_sampling_backend_def ex_guarded_backend_def PageIdContaining_def
        ex_build_def)
  have guard_fail:
    "\<And>s n a s' p. GuardedAllocate ex_sampling_backend s n a = (0, s')
        \<Longrightarrow> GetSize ex_build s' p = GetSize ex_build s p"
    "\<And>s n a s' p. GuardedAllocate ex_guarded_backend s n a = (0, s')
        \<Longrightarrow> GetSize ex_build s' p = GetSize ex_build s p"
    by (auto simp add: ex_sampling_backend_def ex_guarded_backend_def)
  have spannew:
    "\<And>s pg n sp s'. Span_New ex_sampling_backend s pg n = (sp, s')
        \<Longrightarrow> sizeclass s' = sizeclass s \<and> PointerIsMine s' = PointerIsMine s
            \<and> GetRequestedSize s' = GetRequestedSize s"
    "\<And>s pg n sp s'. Span_New ex_guarded_backend s pg n = (sp, s')
        \<Longrightarrow> sizeclass s' = sizeclass s \<and> PointerIsMine s' = PointerIsMine s
            \<and> GetRequestedSize s' = GetRequestedSize s"
    by (auto simp add: ex_sampling_backend_def ex_guarded_backend_def)
  have new_ok:
    "\<And>s n sp s'. New ex_sampling_backend s n = (Some sp, s')
        \<Longrightarrow> GetDescriptor s' (PageIdContaining ex_build (start_address (span_heap s' sp)))
              = Some sp
            \<and> sizeclass s' (PageIdContaining ex_build (start_address (span_heap s' sp))) = 0
            \<and> \<not> PointerIsMine s' (start_address (span_heap s' sp))"
    "\<And>s n sp s'. New ex_guarded_backend s n = (Some sp, s')
        \<Longrightarrow> GetDescriptor s' (PageIdContaining ex_build (start_address (span_heap s' sp)))
              = Some sp
            \<and> sizeclass s' (PageIdContaining ex_build (start_address (span_heap s' sp))) = 0
            \<and> \<not> PointerIsMine s' (start_address (span_heap s' sp))"
    by (auto simp add: ex_sampling_backend_def ex_guarded_backend_def ex_new_span_def
        PageIdContaining_def ex_build_def)
  have new_fail:
    "\<And>s n s' p. New ex_sampling_backend s n = (None, s')
        \<Longrightarrow> GetSize ex_build s' p = GetSize ex_build s p"
    "\<And>s n s' p. New ex_guarded_backend s n = (None, s')
        \<Longrightarrow> GetSize ex_build s' p = GetSize ex_build s p"
    by (auto simp add: ex_sampling_backend_def ex_guarded_backend_def)
  have pages_ok:
    "\<And>s n sp s'. NewAligned ex_sampling_backend s n = (Some sp, s')
        \<Longrightarrow> GetDescriptor s' (PageIdContaining ex_build (start_address (span_heap s' sp)))
              = Some sp
            \<and> sizeclass s' (PageIdContaining ex_build (start_address (span_heap s' sp))) = 0
            \<and> \<not> PointerIsMine s' (start_address (span_heap s' sp))
            \<and> num_pages (span_heap s' sp) = n
            \<and> sampled_allocated_size (span_heap s' sp) = None"
    "\<And>s n sp s'. NewAligned ex_guarded_backend s n = (Some sp, s')
        \<Longrightarrow> GetDescriptor s' (PageIdContaining ex_build (start_address (span_heap s' sp)))
              = Some sp
            \<and> sizeclass s' (PageIdContaining ex_build (start_address (span_heap s' sp))) = 0
            \<and> \<not> PointerIsMine s' (start_address (span_heap s' sp))
            \<and> num_pages (span_heap s' sp) = n
            \<and> sampled_allocated_size (span_heap s' sp) = None"
    by (auto simp add: ex_sampling_backend_def ex_guarded_backend_def ex_new_span_def
        PageIdContaining_def ex_build_def)
  have e1: "\<exists>s'. fast_alloc ex_build ex_sampling_backend MallocOomPolicy ex_state 100
                  = Inr (0x6000, s') \<and> GetSize ex_build s' 0x6000 = Inr 128"
    by (simp add: fast_alloc_def slow_alloc_def AllocSmall_def cache_allocate_def
        SampleifyAllocation_def TrySampleGuardedAllocation_def record_sample_def
        BytesToLengthCeil_def stamp_span_def bytes_in_span_def GetSize_def
        ex_sampling_backend_def ex_new_span_def ex_simps)
  have e2: "\<exists>s'. fast_alloc ex_build ex_guarded_backend MallocOomPolicy ex_state 100
                  = Inr (0x8000, s') \<and> GetSize ex_build s' 0x8000 = Inr 101"
    by (simp add: fast_alloc_def slow_alloc_def AllocSmall_def cache_allocate_def
        SampleifyAllocation_def TrySampleGuardedAllocation_def record_sample_def
        set_pages_def pagemap_Set_def
        BytesToLengthCeil_def stamp_span_def bytes_in_span_def GetSize_def
        ex_guarded_backend_def ex_new_span_def ex_simps)
  have e3: "\<exists>s'. fast_alloc ex_build ex_sampling_backend MallocOomPolicy ex_state 10000
                  = Inr (0x6000, s') \<and> GetSize ex_build s' 0x6000 = Inr 16384"
    by (simp add: fast_alloc_def slow_alloc_def do_malloc_pages_def
        SampleifyAllocation_def record_sample_def
        BytesToLengthCeil_def stamp_span_def bytes_in_span_def GetSize_def
        ex_sampling_backend_def ex_new_span_def ex_simps)
  from e1 obtain s1 where
    ok1: "fast_alloc ex_build ex_sampling_backend MallocOomPolicy ex_state 100 = Inr (0x6000, s1)"
    and g1: "GetSize ex_build s1 0x6000 = Inr 128" by blast
  from e2 obtain s2 where
    ok2: "fast_alloc ex_build ex_guarded_backend MallocOomPolicy ex_state 100 = Inr (0x8000, s2)"
    and g2: "GetSize ex_build s2 0x8000 = Inr 101" by blast
  from e3 obtain s3 where
    ok3: "fast_alloc ex_build ex_sampling_backend MallocOomPolicy ex_state 10000
            = Inr (0x6000, s3)"
    and g3: "GetSize ex_build s3 0x6000 = Inr 16384" by blast
  have m1: "TCMallocInternalMallocSize ex_build s1 0x6000 = Inr 127"
    using padded_alloc_malloc_size
            [OF prot shift _ sizemap cache(1) sampler(1) guardsampler(1) guard_ok(1)
                guard_fail(1) spannew(1) new_ok(1) new_fail(1) pages_ok(1) ok1] g1
    by auto
  have m2: "TCMallocInternalMallocSize ex_build s2 0x8000 = Inr 100"
    using padded_alloc_malloc_size
            [OF prot shift _ sizemap cache(2) sampler(2) guardsampler(2) guard_ok(2)
                guard_fail(2) spannew(2) new_ok(2) new_fail(2) pages_ok(2) ok2] g2
    by auto
  have m3: "TCMallocInternalMallocSize ex_build s3 0x6000 = Inr 16383"
    using padded_alloc_malloc_size
            [OF prot shift _ sizemap cache(1) sampler(1) guardsampler(1) guard_ok(1)
                guard_fail(1) spannew(1) new_ok(1) new_fail(1) pages_ok(1) ok3] g3
    by auto
  show ?thesis using ok1 g1 m1 ok2 g2 m2 ok3 g3 m3 by blast
qed

end
